theory Spec2Isabelle
  imports Complex_Main "HOL-Library.AList" "HOL-Library.Char_ord" "HOL-Library.List_Lexorder"
begin

section \<open>Shared data model\<close>

text \<open>
  JSON values as the connectors see them after \<^verbatim>\<open>JSON.parse\<close>. An object is the list
  of its own entries in the order \<^verbatim>\<open>Object.keys\<close> enumerates them, with distinct keys
  (an association list); numbers are rationals, of which the code only observes
  \<^verbatim>\<open>typeof\<close> and \<^verbatim>\<open>Number.isInteger\<close>.
\<close>

datatype json =
    JNull
  | JBool bool
  | JNum rat
  | JStr string
  | JArr "json list"
  | JObj "(string \<times> json) list"

text \<open>
  Exceptions that the modelled code throws or lets escape. The typed error classes of
  \<^verbatim>\<open>types/core/errors.ts\<close> that wrap another error keep it as their argument (the
  source puts its message into theirs); an \<^verbatim>\<open>AxiosError\<close> has the response's status and
  status text, when there was a response, and a message.
\<close>

datatype exn =
    SyntaxError
  | TypeError
  | GenericError string
  | FileError
  | AxiosError "(nat \<times> string) option" string
  | ConnectionError exn
  | AuthenticationError string
  | SchemaParsingError exn
  | IntrospectionError exn
  | StorageError exn

text \<open>\<^verbatim>\<open>DataType\<close> of \<^verbatim>\<open>types/core/schema.ts\<close>.\<close>

datatype DataType = STRING | NUMBER | INTEGER | BOOLEAN | ARRAY | OBJECT | NULL | UNKNOWN

record FieldConstraints =
  c_minimum :: "rat option"
  c_maximum :: "rat option"
  c_pattern :: "string option"
  c_enum :: "json list option"
  c_format :: "string option"

text \<open>
  \<^verbatim>\<open>SchemaField\<close>. The protocol-specific \<^verbatim>\<open>metadata\<close> bag is the type parameter;
  an absent optional member is \<open>None\<close>.
\<close>

datatype 'm SchemaField = SchemaField
  (sf_name: string)
  (sf_type: DataType)
  (sf_required: bool)
  (sf_description: "string option")
  (sf_defaultValue: "json option")
  (sf_items: "'m SchemaField option")
  (sf_properties: "(string \<times> 'm SchemaField) list option")
  (sf_constraints: "FieldConstraints option")
  (sf_metadata: "'m option")

datatype ParameterLocation = LocQuery | LocPath | LocHeader | LocBody

record 'm Parameter =
  p_name :: string
  p_location :: ParameterLocation
  p_schema :: "'m SchemaField"
  p_required :: bool
  p_description :: "string option"

section \<open>JavaScript objects built by assignment\<close>

definition isDigit :: "char \<Rightarrow> bool" where
  "isDigit c = ((48::nat) \<le> of_char c \<and> of_char c \<le> (57::nat))"

definition readNat :: "string \<Rightarrow> nat" where
  "readNat s = foldl (\<lambda>n c. 10 * n + (of_char c - 48)) 0 s"

text \<open>
  An array index: the canonical decimal text of an integer from 0 to \<open>2\<^sup>3\<^sup>2 - 2\<close>.
\<close>

definition isArrayIndex :: "string \<Rightarrow> bool" where
  "isArrayIndex s =
     (s \<noteq> [] \<and> list_all isDigit s \<and> (s = ''0'' \<or> hd s \<noteq> CHR ''0'') \<and>
      readNat s < 4294967295)"

text \<open>
  \<^verbatim>\<open>obj[key] = v\<close> on an object created by a literal. An object enumerates its own keys
  with the array indices first, in ascending numeric order, and then the other keys in
  the order of their creation; a key that is assigned again keeps its place. The name
  \<^verbatim>\<open>__proto__\<close> is the accessor inherited from \<^verbatim>\<open>Object.prototype\<close>: assigning to it
  creates no own property.
\<close>

fun insertIndexed :: "string \<Rightarrow> 'v \<Rightarrow> (string \<times> 'v) list \<Rightarrow> (string \<times> 'v) list" where
  "insertIndexed key v [] = [(key, v)]"
| "insertIndexed key v (entry # rest) =
     (if isArrayIndex (fst entry) \<and> readNat (fst entry) < readNat key
      then entry # insertIndexed key v rest
      else (key, v) # entry # rest)"

definition setProperty :: "string \<Rightarrow> 'v \<Rightarrow> (string \<times> 'v) list \<Rightarrow> (string \<times> 'v) list" where
  "setProperty key v obj =
     (if key = ''__proto__'' then obj
      else if isArrayIndex key \<and> map_of obj key = None then insertIndexed key v obj
      else AList.update key v obj)"

section \<open>GraphQL converter (\<^verbatim>\<open>connectors/graphql/schema-converter.ts\<close>)\<close>

datatype GraphQLTypeKind =
  SCALAR | OBJECT_KIND | INTERFACE | UNION | ENUM | INPUT_OBJECT | LIST | NON_NULL

datatype GraphQLTypeRef = TypeRef
  (ref_kind: GraphQLTypeKind)
  (ref_name: "string option")
  (ofType: "GraphQLTypeRef option")

record GraphQLInputValue =
  iv_name :: string
  iv_description :: "string option"
  iv_type :: GraphQLTypeRef
  iv_defaultValue :: "string option"

record GraphQLField =
  f_name :: string
  f_description :: "string option"
  f_args :: "GraphQLInputValue list"
  f_type :: GraphQLTypeRef
  f_isDeprecated :: bool
  f_deprecationReason :: "string option"

record GraphQLType =
  t_kind :: GraphQLTypeKind
  t_name :: "string option"
  t_description :: "string option"
  t_fields :: "GraphQLField list option"
  t_inputFields :: "GraphQLInputValue list option"
  t_interfaces :: "GraphQLTypeRef list option"
  t_possibleTypes :: "GraphQLTypeRef list option"

text \<open>The \<^verbatim>\<open>metadata.graphql\<close> objects the converter attaches.\<close>

datatype graphql_meta =
    FieldMeta bool "string option" "unit Parameter list"
  | TypeMeta GraphQLTypeKind "string option list option" "string option list option"

fun mapScalarType :: "string option \<Rightarrow> DataType" where
  "mapScalarType scalarName =
     (if scalarName = Some ''String'' \<or> scalarName = Some ''ID'' then STRING
      else if scalarName = Some ''Int'' then INTEGER
      else if scalarName = Some ''Float'' then NUMBER
      else if scalarName = Some ''Boolean'' then BOOLEAN
      else STRING)"

text \<open>
  The \<^verbatim>\<open>while (currentType.ofType)\<close> loop of \<^verbatim>\<open>convertGraphQLTypeToDataType\<close>: it
  returns the innermost type reference and the \<^verbatim>\<open>isList\<close> flag.
\<close>

fun unwrapType :: "GraphQLTypeRef \<Rightarrow> bool \<Rightarrow> GraphQLTypeRef \<times> bool" where
  "unwrapType (TypeRef k n None) isList = (TypeRef k n None, isList)"
| "unwrapType (TypeRef k n (Some t)) isList = unwrapType t (isList \<or> k = LIST)"

definition convertGraphQLTypeToDataType :: "GraphQLTypeRef \<Rightarrow> DataType" where
  "convertGraphQLTypeToDataType typeRef =
     (case unwrapType typeRef False of
        (currentType, isList) \<Rightarrow>
          if isList then ARRAY
          else (case ref_kind currentType of
                  SCALAR \<Rightarrow> mapScalarType (ref_name currentType)
                | ENUM \<Rightarrow> STRING
                | OBJECT_KIND \<Rightarrow> OBJECT
                | INTERFACE \<Rightarrow> OBJECT
                | UNION \<Rightarrow> OBJECT
                | INPUT_OBJECT \<Rightarrow> OBJECT
                | _ \<Rightarrow> UNKNOWN))"

definition isNonNullType :: "GraphQLTypeRef \<Rightarrow> bool" where
  "isNonNullType typeRef = (ref_kind typeRef = NON_NULL)"

text \<open>
  \<^verbatim>\<open>inputValue.defaultValue ? JSON.parse(inputValue.defaultValue) : undefined\<close>.
  \<^verbatim>\<open>JSON.parse\<close> is the parameter \<open>parse\<close> (\<open>None\<close> when it throws); an absent or
  empty string is falsy and is not parsed.
\<close>

definition parseDefaultValue ::
  "(string \<Rightarrow> json option) \<Rightarrow> string option \<Rightarrow> exn + json option" where
  "parseDefaultValue parse dv =
     (case dv of
        None \<Rightarrow> Inr None
      | Some s \<Rightarrow>
          if s = [] then Inr None
          else (case parse s of None \<Rightarrow> Inl SyntaxError | Some j \<Rightarrow> Inr (Some j)))"

definition convertInputValueToParameter ::
  "(string \<Rightarrow> json option) \<Rightarrow> GraphQLInputValue \<Rightarrow> exn + unit Parameter" where
  "convertInputValueToParameter parse inputValue =
     (case parseDefaultValue parse (iv_defaultValue inputValue) of
        Inl e \<Rightarrow> Inl e
      | Inr dv \<Rightarrow>
          Inr \<lparr> p_name = iv_name inputValue,
                p_location = LocBody,
                p_schema = SchemaField (iv_name inputValue)
                   (convertGraphQLTypeToDataType (iv_type inputValue))
                   (isNonNullType (iv_type inputValue))
                   (iv_description inputValue) dv None None None None,
                p_required = isNonNullType (iv_type inputValue),
                p_description = iv_description inputValue \<rparr>)"

text \<open>\<^verbatim>\<open>xs.map(f)\<close> for an \<open>f\<close> that may throw: the first exception escapes.\<close>

fun mapM :: "('a \<Rightarrow> exn + 'b) \<Rightarrow> 'a list \<Rightarrow> exn + 'b list" where
  "mapM f [] = Inr []"
| "mapM f (x # xs) =
     (case f x of
        Inl e \<Rightarrow> Inl e
      | Inr y \<Rightarrow> (case mapM f xs of Inl e \<Rightarrow> Inl e | Inr ys \<Rightarrow> Inr (y # ys)))"

text \<open>
  The two loop bodies of \<^verbatim>\<open>convertTypeToSchemaField\<close>: the property built for one
  entry of \<^verbatim>\<open>type.fields\<close> and for one entry of \<^verbatim>\<open>type.inputFields\<close>.
\<close>

definition convertFieldProperty ::
  "(string \<Rightarrow> json option) \<Rightarrow> GraphQLField \<Rightarrow> exn + graphql_meta SchemaField" where
  "convertFieldProperty parse field =
     (case mapM (convertInputValueToParameter parse) (f_args field) of
        Inl e \<Rightarrow> Inl e
      | Inr arguments \<Rightarrow>
          Inr (SchemaField (f_name field)
                 (convertGraphQLTypeToDataType (f_type field))
                 (isNonNullType (f_type field))
                 (f_description field) None None None None
                 (Some (FieldMeta (f_isDeprecated field) (f_deprecationReason field) arguments))))"

definition convertInputFieldProperty ::
  "(string \<Rightarrow> json option) \<Rightarrow> GraphQLInputValue \<Rightarrow> exn + graphql_meta SchemaField" where
  "convertInputFieldProperty parse inputField =
     (case parseDefaultValue parse (iv_defaultValue inputField) of
        Inl e \<Rightarrow> Inl e
      | Inr dv \<Rightarrow>
          Inr (SchemaField (iv_name inputField)
                 (convertGraphQLTypeToDataType (iv_type inputField))
                 (isNonNullType (iv_type inputField))
                 (iv_description inputField) dv None None None None))"

text \<open>
  \<^verbatim>\<open>properties[key] = value\<close> in a loop over a list.
\<close>

fun assignAll ::
  "('a \<Rightarrow> string) \<Rightarrow> ('a \<Rightarrow> exn + 'b) \<Rightarrow> 'a list \<Rightarrow> (string \<times> 'b) list
     \<Rightarrow> exn + (string \<times> 'b) list" where
  "assignAll key f [] props = Inr props"
| "assignAll key f (x # xs) props =
     (case f x of
        Inl e \<Rightarrow> Inl e
      | Inr y \<Rightarrow> assignAll key f xs (setProperty (key x) y props))"

definition orEmpty :: "'a list option \<Rightarrow> 'a list" where
  "orEmpty xs = (case xs of None \<Rightarrow> [] | Some ys \<Rightarrow> ys)"

text \<open>
  \<^verbatim>\<open>convertTypeToSchemaField\<close>. An absent (\<^verbatim>\<open>null\<close>) \<^verbatim>\<open>fields\<close> or
  \<^verbatim>\<open>inputFields\<close> skips its loop. \<^verbatim>\<open>convertSchema\<close> only passes named types
  (\<^verbatim>\<open>isBuiltInType(undefined)\<close> is true); a nameless one would carry \<^verbatim>\<open>undefined\<close>.
\<close>

definition convertTypeToSchemaField ::
  "(string \<Rightarrow> json option) \<Rightarrow> GraphQLType \<Rightarrow> exn + graphql_meta SchemaField" where
  "convertTypeToSchemaField parse type =
     (case assignAll f_name (convertFieldProperty parse) (orEmpty (t_fields type)) [] of
        Inl e \<Rightarrow> Inl e
      | Inr props1 \<Rightarrow>
          (case assignAll iv_name (convertInputFieldProperty parse)
                  (orEmpty (t_inputFields type)) props1 of
             Inl e \<Rightarrow> Inl e
           | Inr properties \<Rightarrow>
               Inr (SchemaField (case t_name type of None \<Rightarrow> ''undefined'' | Some n \<Rightarrow> n)
                      OBJECT True (t_description type) None None (Some properties) None
                      (Some (TypeMeta (t_kind type)
                               (map_option (map ref_name) (t_interfaces type))
                               (map_option (map ref_name) (t_possibleTypes type)))))))"

text \<open>
  The reading of the specification: a \<^verbatim>\<open>NON_NULL\<close> wrapper anywhere in the chain.
\<close>

fun hasNonNullAnywhere :: "GraphQLTypeRef \<Rightarrow> bool" where
  "hasNonNullAnywhere (TypeRef k n None) = (k = NON_NULL)"
| "hasNonNullAnywhere (TypeRef k n (Some t)) = (k = NON_NULL \<or> hasNonNullAnywhere t)"

definition namedType :: "GraphQLTypeKind \<Rightarrow> string \<Rightarrow> GraphQLTypeRef" where
  "namedType k n = TypeRef k (Some n) None"

definition wrapType :: "GraphQLTypeKind \<Rightarrow> GraphQLTypeRef \<Rightarrow> GraphQLTypeRef" where
  "wrapType k t = TypeRef k None (Some t)"

text \<open>Example inputs used by the closed theorems below.\<close>

definition parseNothing :: "string \<Rightarrow> json option" where
  "parseNothing s = None"

definition listOfNonNullString :: GraphQLTypeRef where
  "listOfNonNullString = wrapType LIST (wrapType NON_NULL (namedType SCALAR ''String''))"

definition nonNullListOfNonNullString :: GraphQLTypeRef where
  "nonNullListOfNonNullString = wrapType NON_NULL listOfNonNullString"

definition tagsArg :: GraphQLInputValue where
  "tagsArg = \<lparr> iv_name = ''tags'', iv_description = None,
               iv_type = listOfNonNullString, iv_defaultValue = None \<rparr>"

definition tagsField :: GraphQLField where
  "tagsField = \<lparr> f_name = ''tags'', f_description = None, f_args = [],
                 f_type = listOfNonNullString, f_isDeprecated = False,
                 f_deprecationReason = None \<rparr>"

definition petsField :: GraphQLField where
  "petsField = \<lparr> f_name = ''pets'', f_description = None, f_args = [tagsArg],
                 f_type = nonNullListOfNonNullString, f_isDeprecated = False,
                 f_deprecationReason = None \<rparr>"

section \<open>REST converter (\<^verbatim>\<open>connectors/rest/openapi-converter.ts\<close>)\<close>

text \<open>
  \<^verbatim>\<open>OpenAPISchema\<close>, with the members the schema converter reads. \<^verbatim>\<open>type\<close> is the
  string found in the document (the \<^verbatim>\<open>OpenAPIDataType\<close> enum is not checked at run time).
\<close>

datatype OpenAPISchema = OpenAPISchema
  (os_type: "string option")
  (os_format: "string option")
  (os_description: "string option")
  (os_default: "json option")
  (os_example: "json option")
  (os_enum: "json list option")
  (os_minimum: "rat option")
  (os_maximum: "rat option")
  (os_minLength: "rat option")
  (os_maxLength: "rat option")
  (os_pattern: "string option")
  (os_items: "OpenAPISchema option")
  (os_properties: "(string \<times> OpenAPISchema) list option")
  (os_required: "string list option")
  (os_ref: "string option")
  (os_nullable: "bool option")
  (os_readOnly: "bool option")
  (os_writeOnly: "bool option")
  (os_deprecated: "bool option")

text \<open>The \<^verbatim>\<open>metadata.openapi\<close> object of a converted field.\<close>

record openapi_meta =
  m_format :: "string option"
  m_example :: "json option"
  m_enum :: "json list option"
  m_nullable :: "bool option"
  m_readOnly :: "bool option"
  m_writeOnly :: "bool option"
  m_deprecated :: "bool option"

text \<open>JavaScript truthiness of an optional string: absent and empty are falsy.\<close>

definition truthyStr :: "string option \<Rightarrow> bool" where
  "truthyStr s = (s \<noteq> None \<and> s \<noteq> Some [])"

definition mapOpenAPITypeToDataType :: "string option \<Rightarrow> DataType" where
  "mapOpenAPITypeToDataType type =
     (if type = Some ''string'' then STRING
      else if type = Some ''number'' then NUMBER
      else if type = Some ''integer'' then INTEGER
      else if type = Some ''boolean'' then BOOLEAN
      else if type = Some ''array'' then ARRAY
      else if type = Some ''object'' then OBJECT
      else if type = Some ''file'' then STRING
      else UNKNOWN)"

definition noConstraints :: FieldConstraints where
  "noConstraints = \<lparr> c_minimum = None, c_maximum = None, c_pattern = None,
                     c_enum = None, c_format = None \<rparr>"

text \<open>
  \<^verbatim>\<open>extractSchemaConstraints\<close>: the assignments in source order (\<^verbatim>\<open>minLength\<close> and
  \<^verbatim>\<open>maxLength\<close> overwrite \<^verbatim>\<open>minimum\<close> and \<^verbatim>\<open>maximum\<close>); \<open>None\<close> when nothing was set.
\<close>

definition extractSchemaConstraints :: "OpenAPISchema \<Rightarrow> FieldConstraints option" where
  "extractSchemaConstraints schema =
     (let c1 = (case os_minimum schema of None \<Rightarrow> noConstraints
                | Some v \<Rightarrow> noConstraints\<lparr>c_minimum := Some v\<rparr>);
          c2 = (case os_maximum schema of None \<Rightarrow> c1 | Some v \<Rightarrow> c1\<lparr>c_maximum := Some v\<rparr>);
          c3 = (case os_minLength schema of None \<Rightarrow> c2 | Some v \<Rightarrow> c2\<lparr>c_minimum := Some v\<rparr>);
          c4 = (case os_maxLength schema of None \<Rightarrow> c3 | Some v \<Rightarrow> c3\<lparr>c_maximum := Some v\<rparr>);
          c5 = (if truthyStr (os_pattern schema) then c4\<lparr>c_pattern := os_pattern schema\<rparr> else c4);
          c6 = (case os_enum schema of None \<Rightarrow> c5 | Some v \<Rightarrow> c5\<lparr>c_enum := Some v\<rparr>);
          c7 = (if truthyStr (os_format schema) then c6\<lparr>c_format := os_format schema\<rparr> else c6);
          hasConstraints =
            (os_minimum schema \<noteq> None \<or> os_maximum schema \<noteq> None \<or>
             os_minLength schema \<noteq> None \<or> os_maxLength schema \<noteq> None \<or>
             truthyStr (os_pattern schema) \<or> os_enum schema \<noteq> None \<or>
             truthyStr (os_format schema))
      in if hasConstraints then Some c7 else None)"

text \<open>\<^verbatim>\<open>resolveSchemaReference\<close>: the placeholder \<^verbatim>\<open>{ type: 'object' }\<close>, whatever the reference.\<close>

definition resolveSchemaReference :: "string \<Rightarrow> OpenAPISchema" where
  "resolveSchemaReference refString =
     OpenAPISchema (Some ''object'') None None None None None None None None None None
       None None None None None None None None"

text \<open>\<^verbatim>\<open>schema.$ref ? this.resolveSchemaReference(schema.$ref) : schema\<close>.\<close>

definition resolvedSchemaOf :: "OpenAPISchema \<Rightarrow> OpenAPISchema" where
  "resolvedSchemaOf schema =
     (case os_ref schema of
        None \<Rightarrow> schema
      | Some r \<Rightarrow> if r = [] then schema else resolveSchemaReference r)"

definition setRequired :: "bool \<Rightarrow> 'm SchemaField \<Rightarrow> 'm SchemaField" where
  "setRequired b sf =
     SchemaField (sf_name sf) (sf_type sf) b (sf_description sf) (sf_defaultValue sf)
       (sf_items sf) (sf_properties sf) (sf_constraints sf) (sf_metadata sf)"

text \<open>\<^verbatim>\<open>resolvedSchema.required?.includes(propName) || false\<close>.\<close>

definition requiredIncludes :: "string list option \<Rightarrow> string \<Rightarrow> bool" where
  "requiredIncludes req propName = (case req of None \<Rightarrow> False | Some names \<Rightarrow> propName \<in> set names)"

text \<open>
  \<^verbatim>\<open>convertOpenAPISchemaToSchemaField\<close>. The recursion follows \<^verbatim>\<open>resolvedSchema.items\<close>
  and the entries of \<^verbatim>\<open>resolvedSchema.properties\<close>, assigned in order into the
  \<^verbatim>\<open>field.properties\<close> object.
\<close>

function convertOpenAPISchemaToSchemaField ::
  "OpenAPISchema \<Rightarrow> string \<Rightarrow> openapi_meta SchemaField" where
  "convertOpenAPISchemaToSchemaField schema name =
     SchemaField name
       (mapOpenAPITypeToDataType
          (if truthyStr (os_type (resolvedSchemaOf schema)) then os_type (resolvedSchemaOf schema)
           else Some ''object''))
       False
       (if truthyStr (os_description (resolvedSchemaOf schema))
        then os_description (resolvedSchemaOf schema) else None)
       (os_default (resolvedSchemaOf schema))
       (if os_type (resolvedSchemaOf schema) = Some ''array''
        then (case os_items (resolvedSchemaOf schema) of
                None \<Rightarrow> None
              | Some items \<Rightarrow> Some (convertOpenAPISchemaToSchemaField items ''item''))
        else None)
       (if os_type (resolvedSchemaOf schema) = Some ''object''
        then (case os_properties (resolvedSchemaOf schema) of
                None \<Rightarrow> None
              | Some props \<Rightarrow>
                  Some (foldl (\<lambda>acc entry.
                          setProperty (fst entry)
                            (setRequired
                               (requiredIncludes (os_required (resolvedSchemaOf schema)) (fst entry))
                               (convertOpenAPISchemaToSchemaField (snd entry) (fst entry)))
                            acc)
                        [] props))
        else None)
       (extractSchemaConstraints (resolvedSchemaOf schema))
       (Some \<lparr> m_format = os_format (resolvedSchemaOf schema),
               m_example = os_example (resolvedSchemaOf schema),
               m_enum = os_enum (resolvedSchemaOf schema),
               m_nullable = os_nullable (resolvedSchemaOf schema),
               m_readOnly = os_readOnly (resolvedSchemaOf schema),
               m_writeOnly = os_writeOnly (resolvedSchemaOf schema),
               m_deprecated = os_deprecated (resolvedSchemaOf schema) \<rparr>)"
  by pat_completeness auto
termination
proof (relation "measure (\<lambda>(s, n). size s)")
  show "wf (measure (\<lambda>(s, n). size s))" by simp
next
  fix schema :: OpenAPISchema and name :: string and items :: OpenAPISchema
  assume "os_type (resolvedSchemaOf schema) = Some ''array''"
    and "os_items (resolvedSchemaOf schema) = Some items"
  then show "((items, ''item''), (schema, name)) \<in> measure (\<lambda>(s, n). size s)"
    by (cases schema)
      (auto simp: resolvedSchemaOf_def resolveSchemaReference_def
         split: option.splits if_splits)
next
  fix schema :: OpenAPISchema and name :: string and props acc
    and entry :: "string \<times> OpenAPISchema"
  assume "os_type (resolvedSchemaOf schema) = Some ''object''"
    and p: "os_properties (resolvedSchemaOf schema) = Some props"
    and e: "entry \<in> set props"
  have "size (snd entry) \<le> size_prod (\<lambda>x. 0) size entry"
    by (cases entry) simp
  with e have "size (snd entry) \<le> size_list (size_prod (\<lambda>x. 0) size) props"
    by (rule size_list_estimation')
  moreover have "os_properties schema = Some props"
    using p by (auto simp: resolvedSchemaOf_def resolveSchemaReference_def
                  split: option.splits if_splits)
  ultimately show "((snd entry, fst entry), (schema, name)) \<in> measure (\<lambda>(s, n). size s)"
    by (cases schema) auto
qed

text \<open>Two schema objects that differ only in the type they refer to.\<close>

definition refToPet :: OpenAPISchema where
  "refToPet = OpenAPISchema None None None None None None None None None None None
       None None None (Some ''#/components/schemas/Pet'') None None None None"

definition refToUser :: OpenAPISchema where
  "refToUser = OpenAPISchema None None None None None None None None None None None
       None None None (Some ''#/components/schemas/User'') None None None None"

definition emptyOpenAPIMeta :: openapi_meta where
  "emptyOpenAPIMeta = \<lparr> m_format = None, m_example = None, m_enum = None, m_nullable = None,
                         m_readOnly = None, m_writeOnly = None, m_deprecated = None \<rparr>"

section \<open>String helpers\<close>

text \<open>
  \<^verbatim>\<open>String.prototype.toLowerCase\<close>, \<^verbatim>\<open>includes\<close>, \<^verbatim>\<open>startsWith\<close> and \<^verbatim>\<open>endsWith\<close>.
  Strings are byte strings here, so only the ASCII letters change case (setting bit 5
  of \<^verbatim>\<open>A\<close>..\<^verbatim>\<open>Z\<close> adds 32).
\<close>

definition toLowerChar :: "char \<Rightarrow> char" where
  "toLowerChar c =
     (if (65::nat) \<le> of_char c \<and> of_char c \<le> (90::nat)
      then (case c of Char b0 b1 b2 b3 b4 b5 b6 b7 \<Rightarrow> Char b0 b1 b2 b3 b4 True b6 b7)
      else c)"

definition toLowerCase :: "string \<Rightarrow> string" where
  "toLowerCase s = map toLowerChar s"

fun startsWith :: "string \<Rightarrow> string \<Rightarrow> bool" where
  "startsWith s [] = True"
| "startsWith [] (c # cs) = False"
| "startsWith (d # ds) (c # cs) = (d = c \<and> startsWith ds cs)"

fun includesStr :: "string \<Rightarrow> string \<Rightarrow> bool" where
  "includesStr [] sub = (sub = [])"
| "includesStr (d # ds) sub = (startsWith (d # ds) sub \<or> includesStr ds sub)"

definition endsWith :: "string \<Rightarrow> string \<Rightarrow> bool" where
  "endsWith s suffix = startsWith (rev s) (rev suffix)"

section \<open>Storage backends (\<^verbatim>\<open>storage/memory/memory-storage.ts\<close>, \<^verbatim>\<open>storage/file/file-storage.ts\<close>)\<close>

text \<open>
  The members of a \<^verbatim>\<open>UniversalSchema\<close> that the storage layer reads; everything else
  travels in the record's extension. \<^verbatim>\<open>discoveredAt\<close> is the date's \<^verbatim>\<open>getTime()\<close> in
  milliseconds.
\<close>

record UniversalSchema =
  us_id :: string
  us_name :: string
  us_protocol :: string
  us_source :: "string option"
  us_description :: "string option"
  us_discoveredAt :: int



text \<open>Truthiness of an optional number: absent and \<open>0\<close> are falsy.\<close>

definition truthyNum :: "int option \<Rightarrow> bool" where
  "truthyNum n = (n \<noteq> None \<and> n \<noteq> Some 0)"

text \<open>\<^verbatim>\<open>n || 0\<close>.\<close>

definition orZero :: "int option \<Rightarrow> int" where
  "orZero n = (case n of None \<Rightarrow> 0 | Some v \<Rightarrow> v)"













text \<open>
  \<^verbatim>\<open>MemoryStorage\<close>: the \<^verbatim>\<open>Map\<close> of schemas in insertion order, the merged
  configuration and the \<^verbatim>\<open>initialized\<close> flag. A configured \<open>0\<close> (like an explicit
  \<^verbatim>\<open>undefined\<close>) switches a limit off, since the code tests it for truthiness.
\<close>

record 'a MemoryStorage =
  ms_schemas :: "(string \<times> 'a UniversalSchema_scheme) list"
  ms_maxSchemas :: "int option"
  ms_maxAge :: "int option"
  ms_initialized :: bool

record MemoryStorageConfig =
  cfg_maxSchemas :: "int option"
  cfg_maxAge :: "int option"

definition newMemoryStorage :: "'a MemoryStorage" where
  "newMemoryStorage = \<lparr> ms_schemas = [], ms_maxSchemas = None, ms_maxAge = None,
                        ms_initialized = False \<rparr>"

text \<open>
  \<^verbatim>\<open>initialize\<close>: the defaults (1000 schemas, 24 hours) overridden by the options given.
\<close>

definition initialize :: "MemoryStorageConfig \<Rightarrow> 'a MemoryStorage \<Rightarrow> 'a MemoryStorage" where
  "initialize options st =
     st\<lparr> ms_maxSchemas := (case cfg_maxSchemas options of None \<Rightarrow> Some 1000 | Some v \<Rightarrow> Some v),
         ms_maxAge := (case cfg_maxAge options of None \<Rightarrow> Some (24 * 60 * 60 * 1000)
                        | Some v \<Rightarrow> Some v),
         ms_initialized := True \<rparr>"

definition deleteKey :: "string \<Rightarrow> (string \<times> 'b) list \<Rightarrow> (string \<times> 'b) list" where
  "deleteKey k al = filter (\<lambda>entry. fst entry \<noteq> k) al"

text \<open>
  \<^verbatim>\<open>cleanup\<close> at time \<open>now\<close> (\<^verbatim>\<open>Date.now()\<close>). Without a maximum age it deletes the
  \<^verbatim>\<open>Math.max(1, Math.floor(n * 0.1))\<close> oldest entries (\<open>n div 10\<close> here); reading
  \<^verbatim>\<open>schemas[i][0]\<close> past the end of the array is a TypeError. With a maximum age it deletes
  the entries discovered before \<open>now - maxAge\<close>.
\<close>

definition cleanup :: "int \<Rightarrow> 'a MemoryStorage \<Rightarrow> exn + 'a MemoryStorage" where
  "cleanup now st =
     (if \<not> truthyNum (ms_maxAge st) then
        (let schemas = sort_key (\<lambda>entry. us_discoveredAt (snd entry)) (ms_schemas st);
             toRemove = max 1 (length schemas div 10)
         in if toRemove > length schemas then Inl TypeError
            else Inr (st\<lparr> ms_schemas :=
                        foldl (\<lambda>acc entry. deleteKey (fst entry) acc) (ms_schemas st)
                          (take toRemove schemas) \<rparr>))
      else
        (let cutoffTime = now - orZero (ms_maxAge st);
             toDelete = map fst (filter (\<lambda>entry. us_discoveredAt (snd entry) < cutoffTime)
                                   (ms_schemas st))
         in Inr (st\<lparr> ms_schemas := foldl (\<lambda>acc k. deleteKey k acc) (ms_schemas st) toDelete \<rparr>)))"

definition notInitialized :: exn where
  "notInitialized = GenericError ''Memory storage not initialized. Call initialize() first.''"

text \<open>\<^verbatim>\<open>store\<close> at time \<open>now\<close>: the new state and the returned id.\<close>

definition store ::
  "int \<Rightarrow> 'a UniversalSchema_scheme \<Rightarrow> 'a MemoryStorage \<Rightarrow> exn + ('a MemoryStorage \<times> string)" where
  "store now schema st =
     (if \<not> ms_initialized st then Inl notInitialized
      else
        (case (if truthyNum (ms_maxSchemas st) \<and>
                  int (length (ms_schemas st)) \<ge> orZero (ms_maxSchemas st)
               then cleanup now st else Inr st) of
           Inl e \<Rightarrow> Inl e
         | Inr st' \<Rightarrow>
             Inr (st'\<lparr> ms_schemas := AList.update (us_id schema) schema (ms_schemas st') \<rparr>,
                  us_id schema)))"

text \<open>A sequence of \<^verbatim>\<open>store\<close> calls, all at time \<open>now\<close>; the first exception ends it.\<close>

fun storeAll ::
  "int \<Rightarrow> 'a UniversalSchema_scheme list \<Rightarrow> 'a MemoryStorage \<Rightarrow> exn + 'a MemoryStorage" where
  "storeAll now [] st = Inr st"
| "storeAll now (schema # rest) st =
     (case store now schema st of Inl e \<Rightarrow> Inl e | Inr r \<Rightarrow> storeAll now rest (fst r))"





datatype 'a schemaFile = Missing | Unreadable | Stored 'a









text \<open>Example stores and queries.\<close>

definition mkSchema :: "string \<Rightarrow> int \<Rightarrow> UniversalSchema" where
  "mkSchema ident t = \<lparr> us_id = ident, us_name = ident, us_protocol = ''rest'',
     us_source = None, us_description = None, us_discoveredAt = t \<rparr>"






text \<open>A Memory store limited to two schemas, with the default maximum age of 24 hours.\<close>

definition twoSchemaStore :: "unit MemoryStorage" where
  "twoSchemaStore = initialize \<lparr> cfg_maxSchemas = Some 2, cfg_maxAge = None \<rparr> newMemoryStorage"

section \<open>JavaScript values\<close>

text \<open>
  What the WebSocket code observes of a parsed JSON value: \<^verbatim>\<open>typeof\<close>, truthiness, the
  own entries, and the property test \<^verbatim>\<open>key in obj\<close>.
\<close>

definition typeof :: "json \<Rightarrow> string" where
  "typeof v =
     (case v of
        JNull \<Rightarrow> ''object''
      | JBool b \<Rightarrow> ''boolean''
      | JNum n \<Rightarrow> ''number''
      | JStr s \<Rightarrow> ''string''
      | JArr xs \<Rightarrow> ''object''
      | JObj kvs \<Rightarrow> ''object'')"

definition truthy :: "json \<Rightarrow> bool" where
  "truthy v =
     (case v of
        JNull \<Rightarrow> False
      | JBool b \<Rightarrow> b
      | JNum n \<Rightarrow> n \<noteq> 0
      | JStr s \<Rightarrow> s \<noteq> []
      | JArr xs \<Rightarrow> True
      | JObj kvs \<Rightarrow> True)"

text \<open>Truthiness of a member that may be absent (\<^verbatim>\<open>undefined\<close>).\<close>

definition truthyOpt :: "json option \<Rightarrow> bool" where
  "truthyOpt v = (case v of None \<Rightarrow> False | Some j \<Rightarrow> truthy j)"

text \<open>\<^verbatim>\<open>typeof v === 'object' && v !== null\<close>.\<close>

definition isObject :: "json \<Rightarrow> bool" where
  "isObject v = (case v of JArr xs \<Rightarrow> True | JObj kvs \<Rightarrow> True | _ \<Rightarrow> False)"

text \<open>The decimal text of a natural number, as in a template literal or an array index.\<close>

definition digitChar :: "nat \<Rightarrow> char" where
  "digitChar d =
     (if d = 0 then CHR ''0'' else if d = 1 then CHR ''1'' else if d = 2 then CHR ''2''
      else if d = 3 then CHR ''3'' else if d = 4 then CHR ''4'' else if d = 5 then CHR ''5''
      else if d = 6 then CHR ''6'' else if d = 7 then CHR ''7'' else if d = 8 then CHR ''8''
      else CHR ''9'')"

fun showNat :: "nat \<Rightarrow> string" where
  "showNat n = (if n < 10 then [digitChar n] else showNat (n div 10) @ [digitChar (n mod 10)])"

declare showNat.simps [simp del]

text \<open>\<^verbatim>\<open>Object.keys\<close> and \<^verbatim>\<open>Object.entries\<close> for an object or an array.\<close>

definition objectEntries :: "json \<Rightarrow> (string \<times> json) list" where
  "objectEntries v =
     (case v of
        JObj kvs \<Rightarrow> kvs
      | JArr xs \<Rightarrow> zip (map showNat [0..<length xs]) xs
      | _ \<Rightarrow> [])"

definition objectKeys :: "json \<Rightarrow> string list" where
  "objectKeys v = map fst (objectEntries v)"

text \<open>
  \<^verbatim>\<open>key in obj\<close> holds for the own properties of \<^verbatim>\<open>obj\<close> and for every name defined
  along its prototype chain (\<^verbatim>\<open>constructor\<close>, \<^verbatim>\<open>toString\<close>, ... for every object;
  \<^verbatim>\<open>push\<close>, \<^verbatim>\<open>map\<close>, ... for an array; \<^verbatim>\<open>length\<close>, \<^verbatim>\<open>readUInt8\<close>, ... for a
  Buffer). Which names the chains define depends on the release of Node that runs the
  code, so the chains are a parameter: \<open>chain c name\<close> tells whether \<open>name\<close> is defined
  along the prototype chain of the objects of class \<open>c\<close>.
\<close>

datatype objectClass = PlainObject | ArrayObject | BufferObject

type_synonym prototypeChain = "objectClass \<Rightarrow> string \<Rightarrow> bool"

text \<open>
  \<^verbatim>\<open>key in v\<close> for a value that \<^verbatim>\<open>JSON.parse\<close> returned. An array owns its indices and
  \<^verbatim>\<open>length\<close>. (On a primitive value the operator throws; the modelled code only applies
  it behind a \<^verbatim>\<open>typeof v === 'object'\<close> test on a value that is not \<^verbatim>\<open>null\<close>.)
\<close>

definition hasProperty :: "prototypeChain \<Rightarrow> json \<Rightarrow> string \<Rightarrow> bool" where
  "hasProperty chain v key =
     (case v of
        JObj kvs \<Rightarrow> key \<in> set (objectKeys v) \<or> chain PlainObject key
      | JArr xs \<Rightarrow> key \<in> set (objectKeys v) \<or> key = ''length'' \<or> chain ArrayObject key
      | _ \<Rightarrow> False)"

text \<open>\<^verbatim>\<open>Array.prototype.join\<close>.\<close>

fun joinWith :: "string \<Rightarrow> string list \<Rightarrow> string" where
  "joinWith sep [] = []"
| "joinWith sep [x] = x"
| "joinWith sep (x # y # ys) = x @ sep @ joinWith sep (y # ys)"

text \<open>A \<^verbatim>\<open>Set\<close> in insertion order.\<close>

definition addToSet :: "'a \<Rightarrow> 'a list \<Rightarrow> 'a list" where
  "addToSet x xs = (if x \<in> set xs then xs else xs @ [x])"

section \<open>WebSocket pattern inference (\<^verbatim>\<open>connectors/websocket/websocket-connector.ts\<close>)\<close>

datatype Direction = Incoming | Outgoing | Bidirectional

text \<open>The \<^verbatim>\<open>data\<close> of a captured frame: the text of a text frame or the bytes of a Buffer.\<close>

datatype rawData = TextData string | BinaryData "nat list"

text \<open>The values of \<^verbatim>\<open>WebSocketMessageType\<close> that \<^verbatim>\<open>captureMessage\<close> assigns.\<close>

datatype WebSocketMessageType = TEXT | BINARY | JSON

text \<open>
  The value stored in \<^verbatim>\<open>message.event\<close>: \<^verbatim>\<open>String(v)\<close> of the first element of a
  Socket.IO array, kept unevaluated, or the member \<^verbatim>\<open>event\<close> or \<^verbatim>\<open>type\<close> as it is.
\<close>

datatype eventValue = StringOf json | Member json

text \<open>
  \<^verbatim>\<open>WebSocketMessage\<close>, without its random \<^verbatim>\<open>id\<close> and its \<^verbatim>\<open>metadata\<close>.
  \<^verbatim>\<open>parsed\<close> is present when \<^verbatim>\<open>JSON.parse\<close> was called and returned.
\<close>

record WebSocketMessage =
  wm_type :: WebSocketMessageType
  wm_direction :: Direction
  wm_data :: rawData
  wm_parsed :: "json option"
  wm_timestamp :: int
  wm_size :: nat
  wm_event :: "eventValue option"

text \<open>
  \<^verbatim>\<open>captureMessage\<close>, called at time \<open>now\<close>. \<^verbatim>\<open>JSON.parse\<close> is a parameter (\<open>None\<close>
  when it throws) and is only called when the frame is not binary and \<^verbatim>\<open>data\<close> is a
  string. The event name is looked for in a parsed object: the first element of a
  non-empty array, else a truthy \<^verbatim>\<open>event\<close> or \<^verbatim>\<open>type\<close> member (no built-in prototype
  defines these two names, so they are read among the own entries).
\<close>

definition memberOf :: "json \<Rightarrow> string \<Rightarrow> json option" where
  "memberOf v key = (case v of JObj kvs \<Rightarrow> map_of kvs key | _ \<Rightarrow> None)"

definition eventOf :: "json option \<Rightarrow> eventValue option" where
  "eventOf parsed =
     (case parsed of
        None \<Rightarrow> None
      | Some v \<Rightarrow>
          if truthy v \<and> typeof v = ''object'' then
            (case v of
               JArr (x # xs) \<Rightarrow> Some (StringOf x)
             | _ \<Rightarrow>
                 if truthyOpt (memberOf v ''event'') then map_option Member (memberOf v ''event'')
                 else if truthyOpt (memberOf v ''type'') then map_option Member (memberOf v ''type'')
                 else None)
          else None)"

definition captureMessage ::
  "(string \<Rightarrow> json option) \<Rightarrow> rawData \<Rightarrow> bool \<Rightarrow> Direction \<Rightarrow> int \<Rightarrow> WebSocketMessage" where
  "captureMessage jsonParse data isBinary direction now =
     (let parsed = (if \<not> isBinary
                    then (case data of TextData s \<Rightarrow> jsonParse s | BinaryData bytes \<Rightarrow> None)
                    else None)
      in \<lparr> wm_type = (if parsed \<noteq> None then JSON else if isBinary then BINARY else TEXT),
            wm_direction = direction,
            wm_data = data,
            wm_parsed = parsed,
            wm_timestamp = now,
            wm_size = (case data of TextData s \<Rightarrow> length s | BinaryData bytes \<Rightarrow> length bytes),
            wm_event = eventOf parsed \<rparr>)"

text \<open>
  The \<^verbatim>\<open>message\<close> handler of \<^verbatim>\<open>performIntrospectionSession\<close>, run over the frames that
  the \<^verbatim>\<open>ws\<close> socket emits until the session is resolved; a frame is the \<^verbatim>\<open>data\<close> and
  \<^verbatim>\<open>isBinary\<close> arguments of the event and the time of its arrival. With
  \<^verbatim>\<open>maxMessages\<close> messages held, the handler resolves the session and captures nothing
  more. The result is \<^verbatim>\<open>session.messages\<close>.
\<close>

definition maxMessagesOf :: "int option \<Rightarrow> int" where
  "maxMessagesOf configured = (if truthyNum configured then the configured else 100)"

fun onMessage ::
  "(string \<Rightarrow> json option) \<Rightarrow> int \<Rightarrow> WebSocketMessage list \<Rightarrow> (rawData \<times> bool \<times> int) list
     \<Rightarrow> WebSocketMessage list" where
  "onMessage jsonParse maxMessages messages [] = messages"
| "onMessage jsonParse maxMessages messages ((data, isBinary, now) # frames) =
     (if int (length messages) \<ge> maxMessages then messages
      else onMessage jsonParse maxMessages
             (messages @ [captureMessage jsonParse data isBinary Incoming now]) frames)"

definition sessionMessages ::
  "(string \<Rightarrow> json option) \<Rightarrow> int option \<Rightarrow> (rawData \<times> bool \<times> int) list
     \<Rightarrow> WebSocketMessage list" where
  "sessionMessages jsonParse configured frames =
     onMessage jsonParse (maxMessagesOf configured) [] frames"

record WebSocketMessagePattern =
  wp_id :: string
  wp_name :: string
  wp_description :: string
  wp_template :: "json option"
  wp_requiredFields :: "string list"
  wp_optionalFields :: "string list"
  wp_fieldTypes :: "(string \<times> string) list"
  wp_frequency :: nat
  wp_examples :: "json list"

text \<open>
  \<^verbatim>\<open>getMessageSignature\<close>: the keys in the default \<^verbatim>\<open>sort()\<close> order (by code unit;
  by byte here), joined with commas.
\<close>

definition getMessageSignature :: "json \<Rightarrow> string" where
  "getMessageSignature obj =
     (if \<not> isObject obj then typeof obj else joinWith '','' (sort (objectKeys obj)))"

text \<open>\<^verbatim>\<open>prefix.split('.').length\<close>.\<close>

definition splitLength :: "string \<Rightarrow> nat" where
  "splitLength prefix = Suc (length (filter (\<lambda>c. c = CHR ''.'') prefix))"

text \<open>
  The bookkeeping of one entry in \<^verbatim>\<open>analyzeObjectFields\<close>: the field joins the
  \<^verbatim>\<open>fields\<close> set and its \<^verbatim>\<open>typeof\<close> joins the field's set of types.
\<close>

definition fieldNameOf :: "string \<Rightarrow> string \<Rightarrow> string" where
  "fieldNameOf prefix key = (if prefix \<noteq> [] then prefix @ ''.'' @ key else key)"

definition recordField ::
  "string \<Rightarrow> json \<Rightarrow> string list \<times> (string \<times> string list) list
     \<Rightarrow> string list \<times> (string \<times> string list) list" where
  "recordField fieldName v acc =
     (addToSet fieldName (fst acc),
      AList.update fieldName
        (addToSet (typeof v) (case map_of (snd acc) fieldName of None \<Rightarrow> [] | Some ts \<Rightarrow> ts))
        (snd acc))"

text \<open>
  \<^verbatim>\<open>analyzeObjectFields\<close>, with its loop over \<^verbatim>\<open>Object.entries\<close> written out for
  objects (\<open>analyzeProps\<close>, one entry in \<open>analyzeProp\<close>) and for arrays (\<open>analyzeItems\<close>,
  whose keys are the indices). The accumulator is the pair of \<^verbatim>\<open>fields\<close> and
  \<^verbatim>\<open>fieldTypes\<close>.
\<close>

primrec analyzeObjectFields ::
  "json \<Rightarrow> string \<Rightarrow> string list \<times> (string \<times> string list) list
     \<Rightarrow> string list \<times> (string \<times> string list) list"
and analyzeProps ::
  "(string \<times> json) list \<Rightarrow> string \<Rightarrow> string list \<times> (string \<times> string list) list
     \<Rightarrow> string list \<times> (string \<times> string list) list"
and analyzeProp ::
  "string \<times> json \<Rightarrow> string \<Rightarrow> string list \<times> (string \<times> string list) list
     \<Rightarrow> string list \<times> (string \<times> string list) list"
and analyzeItems ::
  "json list \<Rightarrow> nat \<Rightarrow> string \<Rightarrow> string list \<times> (string \<times> string list) list
     \<Rightarrow> string list \<times> (string \<times> string list) list"
where
  "analyzeObjectFields JNull = (\<lambda>prefix acc. acc)"
| "analyzeObjectFields (JBool b) = (\<lambda>prefix acc. acc)"
| "analyzeObjectFields (JNum n) = (\<lambda>prefix acc. acc)"
| "analyzeObjectFields (JStr s) = (\<lambda>prefix acc. acc)"
| "analyzeObjectFields (JArr xs) = (\<lambda>prefix acc. analyzeItems xs 0 prefix acc)"
| "analyzeObjectFields (JObj kvs) = (\<lambda>prefix acc. analyzeProps kvs prefix acc)"
| "analyzeProps [] = (\<lambda>prefix acc. acc)"
| "analyzeProps (entry # rest) =
     (\<lambda>prefix acc. analyzeProps rest prefix (analyzeProp entry prefix acc))"
| "analyzeProp (key, v) =
     (\<lambda>prefix acc.
        if isObject v \<and> splitLength prefix < 3
        then analyzeObjectFields v (fieldNameOf prefix key)
               (recordField (fieldNameOf prefix key) v acc)
        else recordField (fieldNameOf prefix key) v acc)"
| "analyzeItems [] = (\<lambda>i prefix acc. acc)"
| "analyzeItems (v # rest) =
     (\<lambda>i prefix acc.
        analyzeItems rest (Suc i) prefix
          (if isObject v \<and> splitLength prefix < 3
           then analyzeObjectFields v (fieldNameOf prefix (showNat i))
                  (recordField (fieldNameOf prefix (showNat i)) v acc)
           else recordField (fieldNameOf prefix (showNat i)) v acc))"

text \<open>The value kept per signature in \<^verbatim>\<open>patternMap\<close>.\<close>

record patternData =
  pd_signature :: string
  pd_examples :: "json list"
  pd_fields :: "string list"
  pd_fieldTypes :: "(string \<times> string list) list"

text \<open>The body of the first loop of \<^verbatim>\<open>analyzeMessagePatterns\<close>, for one message.\<close>

definition collectMessage ::
  "(string \<times> patternData) list \<Rightarrow> WebSocketMessage \<Rightarrow> (string \<times> patternData) list" where
  "collectMessage patternMap message =
     (case wm_parsed message of
        None \<Rightarrow> patternMap
      | Some parsed \<Rightarrow>
          if \<not> truthy parsed \<or> typeof parsed \<noteq> ''object'' then patternMap
          else
            (let signature = getMessageSignature parsed;
                 pattern = (case map_of patternMap signature of
                              None \<Rightarrow> \<lparr> pd_signature = signature, pd_examples = [],
                                         pd_fields = [], pd_fieldTypes = [] \<rparr>
                            | Some p \<Rightarrow> p);
                 analysed = analyzeObjectFields parsed [] (pd_fields pattern, pd_fieldTypes pattern)
             in AList.update signature
                  (pattern\<lparr> pd_examples := pd_examples pattern @ [parsed],
                            pd_fields := fst analysed,
                            pd_fieldTypes := snd analysed \<rparr>)
                  patternMap))"

text \<open>The pattern pushed for one entry of \<^verbatim>\<open>patternMap\<close> that has two or more examples.\<close>

definition appearsInAll :: "prototypeChain \<Rightarrow> json list \<Rightarrow> string \<Rightarrow> bool" where
  "appearsInAll chain examples field = list_all (\<lambda>ex. hasProperty chain ex field) examples"

text \<open>
  The \<^verbatim>\<open>fieldTypes\<close> record of a pattern: \<^verbatim>\<open>fieldTypes[field] = Array.from(types)[0]\<close>
  for every field whose set of types is not empty, in the order of \<^verbatim>\<open>fields\<close>.
\<close>

definition firstTypes :: "patternData \<Rightarrow> (string \<times> string) list" where
  "firstTypes patternData =
     foldl (\<lambda>fieldTypes field.
              case map_of (pd_fieldTypes patternData) field of
                Some (t # ts) \<Rightarrow> setProperty field t fieldTypes
              | _ \<Rightarrow> fieldTypes)
       [] (pd_fields patternData)"

definition buildPattern ::
  "prototypeChain \<Rightarrow> string \<Rightarrow> patternData \<Rightarrow> nat \<Rightarrow> WebSocketMessagePattern" where
  "buildPattern chain signature patternData patternId =
     (let requiredFields = filter (appearsInAll chain (pd_examples patternData))
                             (pd_fields patternData);
          optionalFields = filter (\<lambda>field. \<not> appearsInAll chain (pd_examples patternData) field)
                             (pd_fields patternData)
      in \<lparr> wp_id = ''pattern_'' @ showNat patternId,
            wp_name = ''Pattern_'' @ take 8 signature,
            wp_description = ''Message pattern with '' @ showNat (length requiredFields) @
               '' required and '' @ showNat (length optionalFields) @ '' optional fields'',
            wp_template = (case pd_examples patternData of [] \<Rightarrow> None | ex # exs \<Rightarrow> Some ex),
            wp_requiredFields = requiredFields,
            wp_optionalFields = optionalFields,
            wp_fieldTypes = firstTypes patternData,
            wp_frequency = length (pd_examples patternData),
            wp_examples = take 3 (pd_examples patternData) \<rparr>)"

text \<open>The second loop: entries with fewer than two examples are skipped.\<close>

fun emitPatterns ::
  "prototypeChain \<Rightarrow> (string \<times> patternData) list \<Rightarrow> nat \<Rightarrow> WebSocketMessagePattern list" where
  "emitPatterns chain [] patternId = []"
| "emitPatterns chain (entry # rest) patternId =
     (if length (pd_examples (snd entry)) < 2 then emitPatterns chain rest patternId
      else buildPattern chain (fst entry) (snd entry) patternId
             # emitPatterns chain rest (Suc patternId))"

definition analyzeMessagePatterns ::
  "prototypeChain \<Rightarrow> WebSocketMessage list \<Rightarrow> WebSocketMessagePattern list" where
  "analyzeMessagePatterns chain messages =
     emitPatterns chain (foldl collectMessage [] messages) 1"

text \<open>
  Example messages: an incoming message whose \<^verbatim>\<open>data\<close> is the given text and whose
  \<^verbatim>\<open>parsed\<close> is the given JSON value.
\<close>

definition jsonMessage :: "string \<Rightarrow> json \<Rightarrow> WebSocketMessage" where
  "jsonMessage text parsed =
     \<lparr> wm_type = JSON, wm_direction = Incoming, wm_data = TextData text,
       wm_parsed = Some parsed, wm_timestamp = 0, wm_size = length text, wm_event = None \<rparr>"

definition userMessage :: WebSocketMessage where
  "userMessage = jsonMessage ''{\"user\":{\"id\":1}}'' (JObj [(''user'', JObj [(''id'', JNum 1)])])"

definition statusMessage :: WebSocketMessage where
  "statusMessage = jsonMessage ''{\"id\":7,\"status\":\"ok\"}''
                     (JObj [(''id'', JNum 7), (''status'', JStr ''ok'')])"

definition errorMessage :: WebSocketMessage where
  "errorMessage = jsonMessage ''{\"error\":\"x\"}'' (JObj [(''error'', JStr ''x'')])"

section \<open>WebSocket schema converter (\<^verbatim>\<open>connectors/websocket/schema-converter.ts\<close>)\<close>

record WebSocketEvent =
  ev_name :: string
  ev_description :: "string option"
  ev_direction :: Direction
  ev_examples :: "WebSocketMessage list"
  ev_frequency :: nat
  ev_deprecated :: "bool option"

record WebSocketEndpoint =
  ep_url :: string
  ep_protocol :: string
  ep_subprotocols :: "string list option"
  ep_headers :: "(string \<times> string) list option"

text \<open>\<^verbatim>\<open>WebSocketSession\<close>, with the members \<^verbatim>\<open>convertSession\<close> builds operations from.\<close>

record WebSocketSession =
  ws_endpoint :: WebSocketEndpoint
  ws_messages :: "WebSocketMessage list"
  ws_events :: "WebSocketEvent list"

text \<open>\<^verbatim>\<open>Response\<close> and \<^verbatim>\<open>Operation\<close> of \<^verbatim>\<open>types/core/schema.ts\<close>.\<close>

record 'm Response =
  r_statusCode :: string
  r_description :: string
  r_schema :: "'m SchemaField option"

datatype OperationType = OpQuery | OpMutation | OpSubscription | OpEndpoint | OpMessage

text \<open>The value of \<^verbatim>\<open>ex.parsed || ex.data\<close>: a JSON value, a text, or a Buffer.\<close>

datatype jsdata = JsonData json | BufferData "nat list"

text \<open>The \<^verbatim>\<open>metadata.websocket\<close> objects of an operation and of a pattern type.\<close>

datatype websocket_op_meta =
    ConnectMeta string "string list option" "(string \<times> string) list option"
  | EventMeta Direction nat "(jsdata \<times> int \<times> nat) list"

record websocket_type_meta =
  tm_frequency :: nat
  tm_examples :: "json list"

record ('m, 'o) Operation =
  op_id :: string
  op_name :: string
  op_type :: OperationType
  op_description :: "string option"
  op_parameters :: "'m Parameter list"
  op_responses :: "'m Response list"
  op_deprecated :: "bool option"
  op_metadata :: "'o option"

definition parsedOrData :: "WebSocketMessage \<Rightarrow> jsdata" where
  "parsedOrData message =
     (let raw = (case wm_data message of
                   TextData s \<Rightarrow> JsonData (JStr s)
                 | BinaryData bytes \<Rightarrow> BufferData bytes)
      in case wm_parsed message of
           None \<Rightarrow> raw
         | Some parsed \<Rightarrow> if truthy parsed then JsonData parsed else raw)"

text \<open>
  The entries of a Buffer are its bytes under their indices; these are its own
  properties, every other name it answers to comes from its prototype chain.
\<close>

definition dataEntries :: "jsdata \<Rightarrow> (string \<times> json) list" where
  "dataEntries d =
     (case d of
        JsonData v \<Rightarrow> objectEntries v
      | BufferData bytes \<Rightarrow> objectEntries (JArr (map (\<lambda>b. JNum (of_nat b)) bytes)))"

definition dataIsObject :: "jsdata \<Rightarrow> bool" where
  "dataIsObject d = (case d of JsonData v \<Rightarrow> isObject v | BufferData bytes \<Rightarrow> True)"

definition dataHasProperty :: "prototypeChain \<Rightarrow> jsdata \<Rightarrow> string \<Rightarrow> bool" where
  "dataHasProperty chain d key =
     (case d of
        JsonData v \<Rightarrow> hasProperty chain v key
      | BufferData bytes \<Rightarrow> key \<in> set (map fst (dataEntries d)) \<or> chain BufferObject key)"

definition messageMatchesPattern ::
  "prototypeChain \<Rightarrow> WebSocketMessage \<Rightarrow> WebSocketMessagePattern \<Rightarrow> bool" where
  "messageMatchesPattern chain message pattern =
     (if \<not> dataIsObject (parsedOrData message) then False
      else list_all (dataHasProperty chain (parsedOrData message)) (wp_requiredFields pattern))"

definition mapFieldType :: "string \<Rightarrow> DataType" where
  "mapFieldType fieldType =
     (let t = toLowerCase fieldType
      in if t = ''string'' then STRING
         else if t = ''number'' \<or> t = ''float'' \<or> t = ''double'' then NUMBER
         else if t = ''integer'' \<or> t = ''int'' then INTEGER
         else if t = ''boolean'' \<or> t = ''bool'' then BOOLEAN
         else if t = ''array'' then ARRAY
         else if t = ''object'' then OBJECT
         else if t = ''null'' then NULL
         else UNKNOWN)"

text \<open>
  \<^verbatim>\<open>pattern.fieldTypes[field] || 'unknown'\<close>, for a field that \<^verbatim>\<open>fieldTypes\<close> owns or
  that no prototype defines (the read of an inherited member is not a string).
\<close>

definition fieldTypeOrUnknown :: "WebSocketMessagePattern \<Rightarrow> string \<Rightarrow> string" where
  "fieldTypeOrUnknown pattern field =
     (case map_of (wp_fieldTypes pattern) field of
        None \<Rightarrow> ''unknown''
      | Some t \<Rightarrow> if t = [] then ''unknown'' else t)"

definition plainField :: "string \<Rightarrow> DataType \<Rightarrow> bool \<Rightarrow> string option \<Rightarrow> 'm SchemaField" where
  "plainField name type required description =
     SchemaField name type required description None None None None None"

definition extractFieldsFromPattern ::
  "WebSocketMessagePattern \<Rightarrow> (string \<times> unit SchemaField) list" where
  "extractFieldsFromPattern pattern =
     foldl (\<lambda>properties field.
              setProperty field
                (plainField field (mapFieldType (fieldTypeOrUnknown pattern field))
                   (field \<in> set (wp_requiredFields pattern)) None)
                properties)
       [] (wp_requiredFields pattern @ wp_optionalFields pattern)"

text \<open>\<^verbatim>\<open>Number.isInteger\<close>, on the normalised fraction.\<close>

definition isInteger :: "rat \<Rightarrow> bool" where
  "isInteger n = (snd (quotient_of n) = 1)"

definition inferDataType :: "json \<Rightarrow> DataType" where
  "inferDataType v =
     (case v of
        JNull \<Rightarrow> NULL
      | JStr s \<Rightarrow> STRING
      | JNum n \<Rightarrow> if isInteger n then INTEGER else NUMBER
      | JBool b \<Rightarrow> BOOLEAN
      | JArr xs \<Rightarrow> ARRAY
      | JObj kvs \<Rightarrow> OBJECT)"

definition inferSchemaFromExamples :: "WebSocketMessage list \<Rightarrow> unit SchemaField" where
  "inferSchemaFromExamples examples =
     (case examples of
        [] \<Rightarrow> plainField ''message'' UNKNOWN True None
      | firstExample # others \<Rightarrow>
          if dataIsObject (parsedOrData firstExample)
          then SchemaField ''message'' OBJECT True None None None
                 (Some (foldl (\<lambda>properties entry.
                                 setProperty (fst entry)
                                   (plainField (fst entry) (inferDataType (snd entry)) True None)
                                   properties)
                          [] (dataEntries (parsedOrData firstExample))))
                 None None
          else plainField ''message''
                 (case parsedOrData firstExample of
                    JsonData v \<Rightarrow> inferDataType v
                  | BufferData bytes \<Rightarrow> OBJECT)
                 True None)"

definition convertEventToOperation ::
  "prototypeChain \<Rightarrow> WebSocketEvent \<Rightarrow> WebSocketMessagePattern list
     \<Rightarrow> (unit, websocket_op_meta) Operation" where
  "convertEventToOperation chain event patterns =
     (let matchingPattern =
            find (\<lambda>p. list_ex (\<lambda>example. messageMatchesPattern chain example p)
                         (ev_examples event))
              patterns;
          parameters =
            (case matchingPattern of
               Some p \<Rightarrow>
                 [\<lparr> p_name = ''message'', p_location = LocBody,
                    p_schema = SchemaField ''message'' OBJECT True
                       (Some (''Message data for '' @ ev_name event @ '' event''))
                       None None (Some (extractFieldsFromPattern p)) None None,
                    p_required = True,
                    p_description = Some (''Message payload for '' @ ev_name event @ '' event'') \<rparr>]
             | None \<Rightarrow>
                 if length (ev_examples event) > 0
                 then [\<lparr> p_name = ''message'', p_location = LocBody,
                         p_schema = inferSchemaFromExamples (ev_examples event),
                         p_required = True,
                         p_description =
                           Some (''Message payload for '' @ ev_name event @ '' event'') \<rparr>]
                 else []);
          responses =
            (if ev_direction event = Bidirectional \<or> ev_direction event = Incoming
             then [\<lparr> r_statusCode = ''success'',
                     r_description = ''Successful '' @ ev_name event @ '' event response'',
                     r_schema =
                       (case matchingPattern of
                          Some p \<Rightarrow>
                            Some (plainField ''response'' OBJECT True
                                    (Some (''Response data for '' @ ev_name event @ '' event'')))
                        | None \<Rightarrow> None) \<rparr>]
             else [])
      in \<lparr> op_id = ''websocket_'' @ ev_name event,
            op_name = ev_name event,
            op_type = OpMessage,
            op_description =
              Some (if truthyStr (ev_description event) then the (ev_description event)
                    else ''WebSocket '' @ ev_name event @ '' event''),
            op_parameters = parameters,
            op_responses = responses,
            op_deprecated = ev_deprecated event,
            op_metadata =
              Some (EventMeta (ev_direction event) (ev_frequency event)
                      (map (\<lambda>ex. (parsedOrData ex, wm_timestamp ex, wm_size ex))
                         (take 3 (ev_examples event)))) \<rparr>)"

definition createConnectionOperation ::
  "WebSocketEndpoint \<Rightarrow> (unit, websocket_op_meta) Operation" where
  "createConnectionOperation endpoint =
     \<lparr> op_id = ''websocket_connect'',
       op_name = ''Connect'',
       op_type = OpEndpoint,
       op_description = Some ''Establish WebSocket connection'',
       op_parameters = [],
       op_responses =
         [\<lparr> r_statusCode = ''101'', r_description = ''WebSocket connection established'',
            r_schema = None \<rparr>,
          \<lparr> r_statusCode = ''400'', r_description = ''Bad request - connection failed'',
            r_schema = None \<rparr>,
          \<lparr> r_statusCode = ''401'', r_description = ''Unauthorized - authentication required'',
            r_schema = None \<rparr>],
       op_deprecated = None,
       op_metadata =
         Some (ConnectMeta (ep_protocol endpoint) (ep_subprotocols endpoint)
                 (ep_headers endpoint)) \<rparr>"

definition convertPatternToSchemaField ::
  "WebSocketMessagePattern \<Rightarrow> websocket_type_meta SchemaField" where
  "convertPatternToSchemaField pattern =
     (let required =
            foldl (\<lambda>properties field.
                     setProperty field
                       (plainField field (mapFieldType (fieldTypeOrUnknown pattern field)) True
                          (Some (''Required field for '' @ wp_name pattern)))
                       properties)
              [] (wp_requiredFields pattern);
          properties =
            foldl (\<lambda>properties field.
                     setProperty field
                       (plainField field (mapFieldType (fieldTypeOrUnknown pattern field)) False
                          (Some (''Optional field for '' @ wp_name pattern)))
                       properties)
              required (wp_optionalFields pattern)
      in SchemaField (wp_name pattern) OBJECT True (Some (wp_description pattern)) None None
           (Some properties) None
           (Some \<lparr> tm_frequency = wp_frequency pattern,
                   tm_examples = take 2 (wp_examples pattern) \<rparr>))"

text \<open>
  \<^verbatim>\<open>convertSession\<close>: the \<^verbatim>\<open>types\<close> and \<^verbatim>\<open>operations\<close> it builds (the loop over the
  patterns, the loop over \<^verbatim>\<open>session.events\<close>, then the \<^verbatim>\<open>unshift\<close> of the connection
  operation). The other members of the returned schema (id, name, description,
  authentication, metadata, timestamps) are computed separately from these two.
\<close>

record convertedSession =
  cs_operations :: "(unit, websocket_op_meta) Operation list"
  cs_types :: "(string \<times> websocket_type_meta SchemaField) list"

definition convertSession ::
  "prototypeChain \<Rightarrow> WebSocketSession \<Rightarrow> WebSocketMessagePattern list \<Rightarrow> convertedSession" where
  "convertSession chain session patterns =
     (let types = foldl (\<lambda>types pattern.
                           setProperty (wp_name pattern) (convertPatternToSchemaField pattern) types)
                    [] patterns;
          operations = foldl (\<lambda>operations event.
                                operations @ [convertEventToOperation chain event patterns])
                         [] (ws_events session)
      in \<lparr> cs_operations = createConnectionOperation (ws_endpoint session) # operations,
            cs_types = types \<rparr>)"

text \<open>
  An example of prototype chains for the closed theorems: the members of
  \<^verbatim>\<open>Object.prototype\<close>, which objects of every class inherit, and \<^verbatim>\<open>length\<close> for
  arrays and Buffers.
\<close>

definition objectPrototypeNames :: "string list" where
  "objectPrototypeNames =
     [''constructor'', ''__defineGetter__'', ''__defineSetter__'', ''hasOwnProperty'',
      ''__lookupGetter__'', ''__lookupSetter__'', ''isPrototypeOf'', ''propertyIsEnumerable'',
      ''toString'', ''valueOf'', ''__proto__'', ''toLocaleString'']"

definition exampleChain :: prototypeChain where
  "exampleChain c name =
     (name \<in> set objectPrototypeNames \<or> (c \<noteq> PlainObject \<and> name = ''length''))"

text \<open>
  Example frames, as the \<^verbatim>\<open>ws\<close> socket emits them: the payload of a text frame arrives
  as a Buffer of its bytes, with \<^verbatim>\<open>isBinary\<close> false.
\<close>

definition bytesOf :: "string \<Rightarrow> nat list" where
  "bytesOf text = map of_char text"

definition statusFrame :: "rawData \<times> bool \<times> int" where
  "statusFrame = (BinaryData (bytesOf ''{\"id\":7,\"status\":\"ok\"}''), False, 0)"

definition errorFrame :: "rawData \<times> bool \<times> int" where
  "errorFrame = (BinaryData (bytesOf ''{\"error\":\"x\"}''), False, 0)"

text \<open>An example session: three status messages and one error message, in two events.\<close>

definition exampleEndpoint :: WebSocketEndpoint where
  "exampleEndpoint = \<lparr> ep_url = ''ws://localhost:8080'', ep_protocol = ''raw'',
                        ep_subprotocols = None, ep_headers = None \<rparr>"

definition exampleSession :: WebSocketSession where
  "exampleSession =
     \<lparr> ws_endpoint = exampleEndpoint,
       ws_messages = [statusMessage, statusMessage, errorMessage, statusMessage],
       ws_events =
         [\<lparr> ev_name = ''message'', ev_description = None, ev_direction = Incoming,
            ev_examples = [statusMessage, statusMessage, errorMessage, statusMessage],
            ev_frequency = 4, ev_deprecated = None \<rparr>,
          \<lparr> ev_name = ''ping'', ev_description = None, ev_direction = Outgoing,
            ev_examples = [], ev_frequency = 1, ev_deprecated = None \<rparr>] \<rparr>"

section \<open>REST connector (\<^verbatim>\<open>connectors/rest/rest-connector.ts\<close>)\<close>

text \<open>
  The HTTP collaborator (axios) is a parameter of the model: \<open>http n method url\<close> is the
  outcome of the \<open>n\<close>-th request the connector issues, either a thrown error or a
  response. The connector threads the request counter, so that two requests for the
  same URL may end differently. Headers and timeouts only travel to axios and are not
  modelled; neither is the measured response time.
\<close>

datatype HttpMethod = HEAD | GET | POST

record HttpResponse =
  resp_contentType :: "string option"
  resp_data :: json

type_synonym http = "nat \<Rightarrow> HttpMethod \<Rightarrow> string \<Rightarrow> exn + HttpResponse"

record RESTConnectorConfig =
  rc_url :: string
  rc_specUrl :: "string option"
  rc_tryCommonPaths :: "bool option"
  rc_customPaths :: "string list option"

definition COMMON_OPENAPI_PATHS :: "string list" where
  "COMMON_OPENAPI_PATHS =
     [''/openapi.json'', ''/openapi.yaml'', ''/swagger.json'', ''/swagger.yaml'',
      ''/api-docs'', ''/api/docs'', ''/docs/openapi.json'', ''/docs/swagger.json'',
      ''/v1/openapi.json'', ''/v1/swagger.json'', ''/api/v1/openapi.json'',
      ''/api/v1/swagger.json'']"

text \<open>The connector's default configuration for a URL: no option is set.\<close>

definition defaultConfig :: "string \<Rightarrow> RESTConnectorConfig" where
  "defaultConfig url = \<lparr> rc_url = url, rc_specUrl = None, rc_tryCommonPaths = None,
                          rc_customPaths = None \<rparr>"

datatype SpecFormat = OpenAPIFormat json | SwaggerFormat json | UnknownFormat

datatype warning =
    NoPathsDefined
  | UnsupportedOpenAPIVersion string
  | UnsupportedSwaggerVersion json

text \<open>
  The \<^verbatim>\<open>metadata\<close> objects of the connector's results, as a record of optional members
  (\<^verbatim>\<open>specSize\<close>, the counts and the timestamp are left out). The interpolated texts
  \<^verbatim>\<open>OpenAPI ${data.openapi}\<close> and \<^verbatim>\<open>Unsupported ... version: ${...}\<close> are kept as a
  constructor with the interpolated value.
\<close>

record RestMetadata =
  md_endpoint :: string
  md_triedPaths :: "string list option"
  md_specUrl :: "string option"
  md_specFormat :: "SpecFormat option"
  md_httpStatus :: "nat option"
  md_httpStatusText :: "string option"
  md_validationErrors :: "string list option"

definition metadataFor :: "string \<Rightarrow> RestMetadata" where
  "metadataFor endpoint =
     \<lparr> md_endpoint = endpoint, md_triedPaths = None, md_specUrl = None, md_specFormat = None,
       md_httpStatus = None, md_httpStatusText = None, md_validationErrors = None \<rparr>"

record ConnectionTestResult =
  ct_success :: bool
  ct_error :: "string option"
  ct_metadata :: RestMetadata

record 's IntrospectionResult =
  ir_success :: bool
  ir_schema :: "'s option"
  ir_error :: "string option"
  ir_warnings :: "warning list option"
  ir_metadata :: "RestMetadata option"

definition looksLikeSpecUrl :: "string \<Rightarrow> bool" where
  "looksLikeSpecUrl url =
     (let lowerUrl = toLowerCase url
      in includesStr lowerUrl ''swagger'' \<or> includesStr lowerUrl ''openapi'' \<or>
         endsWith lowerUrl ''.json'' \<or> endsWith lowerUrl ''.yaml'' \<or>
         endsWith lowerUrl ''.yml'' \<or> includesStr lowerUrl ''api-docs'')"

definition getPathsToTry :: "RESTConnectorConfig \<Rightarrow> string list" where
  "getPathsToTry config =
     (case rc_customPaths config of None \<Rightarrow> [] | Some paths \<Rightarrow> paths) @
     (if rc_tryCommonPaths config \<noteq> Some False then COMMON_OPENAPI_PATHS else [])"

text \<open>\<^verbatim>\<open>config.url.replace(/\/$/, '')\<close>.\<close>

definition removeTrailingSlash :: "string \<Rightarrow> string" where
  "removeTrailingSlash url = (if url \<noteq> [] \<and> last url = CHR ''/'' then butlast url else url)"

text \<open>Whether a \<^verbatim>\<open>HEAD\<close> outcome makes the probing loop accept the candidate.\<close>

definition probeAccepts :: "exn + HttpResponse \<Rightarrow> bool" where
  "probeAccepts outcome =
     (case outcome of
        Inl e \<Rightarrow> False
      | Inr response \<Rightarrow>
          (let contentType = (case resp_contentType response of None \<Rightarrow> [] | Some c \<Rightarrow> c)
           in includesStr contentType ''json'' \<or> includesStr contentType ''yaml'' \<or>
              includesStr contentType ''text''))"

text \<open>The probing loop of \<^verbatim>\<open>discoverSpecificationUrl\<close>: one request per candidate path.\<close>

fun probePaths :: "http \<Rightarrow> string \<Rightarrow> string list \<Rightarrow> nat \<Rightarrow> string option \<times> nat" where
  "probePaths http baseUrl [] n = (None, n)"
| "probePaths http baseUrl (path # rest) n =
     (if probeAccepts (http n HEAD (baseUrl @ path)) then (Some (baseUrl @ path), Suc n)
      else probePaths http baseUrl rest (Suc n))"

definition discoverSpecificationUrl ::
  "http \<Rightarrow> RESTConnectorConfig \<Rightarrow> nat \<Rightarrow> string option \<times> nat" where
  "discoverSpecificationUrl http config n =
     (if truthyStr (rc_specUrl config) then (rc_specUrl config, n)
      else if looksLikeSpecUrl (rc_url config) then (Some (rc_url config), n)
      else probePaths http (removeTrailingSlash (rc_url config)) (getPathsToTry config) n)"

text \<open>Reading a property of a JSON value; \<open>None\<close> is \<^verbatim>\<open>undefined\<close>, reading from \<^verbatim>\<open>null\<close> throws.\<close>

definition getProp :: "json \<Rightarrow> string \<Rightarrow> exn + json option" where
  "getProp v key =
     (case v of
        JNull \<Rightarrow> Inl TypeError
      | JObj kvs \<Rightarrow> Inr (map_of kvs key)
      | _ \<Rightarrow> Inr None)"

definition propOf :: "json \<Rightarrow> string \<Rightarrow> json option" where
  "propOf v key = (case getProp v key of Inl e \<Rightarrow> None | Inr r \<Rightarrow> r)"

definition detectSpecificationFormat :: "json \<Rightarrow> SpecFormat" where
  "detectSpecificationFormat d =
     (if isObject d then
        (if truthyOpt (propOf d ''openapi'') then OpenAPIFormat (the (propOf d ''openapi''))
         else if truthyOpt (propOf d ''swagger'') then SwaggerFormat (the (propOf d ''swagger''))
         else UnknownFormat)
      else UnknownFormat)"

text \<open>
  \<^verbatim>\<open>HTTP ${error.response?.status}: ${error.response?.statusText || error.message}\<close>.
\<close>

definition httpErrorText :: "(nat \<times> string) option \<Rightarrow> string \<Rightarrow> string" where
  "httpErrorText response message =
     ''HTTP '' @ (case response of None \<Rightarrow> ''undefined'' | Some r \<Rightarrow> showNat (fst r)) @ '': '' @
     (case response of
        None \<Rightarrow> message
      | Some r \<Rightarrow> if snd r \<noteq> [] then snd r else message)"

text \<open>\<^verbatim>\<open>RESTConnector.testConnection\<close>, started at request number \<open>n\<close>.\<close>

definition testConnection ::
  "http \<Rightarrow> RESTConnectorConfig \<Rightarrow> nat \<Rightarrow> (exn + ConnectionTestResult) \<times> nat" where
  "testConnection http config n =
     (case discoverSpecificationUrl http config n of
        (specUrl, n1) \<Rightarrow>
          if \<not> truthyStr specUrl then
            (Inr \<lparr> ct_success = False,
                   ct_error = Some ''Could not discover OpenAPI specification URL'',
                   ct_metadata = (metadataFor (rc_url config))
                     \<lparr> md_triedPaths := Some (getPathsToTry config) \<rparr> \<rparr>, n1)
          else
            (case http n1 GET (the specUrl) of
               Inr response \<Rightarrow>
                 if truthy (resp_data response) then
                   (Inr \<lparr> ct_success = True, ct_error = None,
                          ct_metadata = (metadataFor (rc_url config))
                            \<lparr> md_specUrl := specUrl,
                              md_specFormat :=
                                Some (detectSpecificationFormat (resp_data response)) \<rparr> \<rparr>,
                    Suc n1)
                 else
                   (Inr \<lparr> ct_success = False,
                          ct_error = Some ''Empty or invalid OpenAPI specification'',
                          ct_metadata = (metadataFor (rc_url config))
                            \<lparr> md_specUrl := specUrl \<rparr> \<rparr>, Suc n1)
             | Inl (AxiosError response message) \<Rightarrow>
                 (Inr \<lparr> ct_success = False,
                        ct_error = Some (httpErrorText response message),
                        ct_metadata = (metadataFor (rc_url config))
                          \<lparr> md_httpStatus := map_option fst response,
                            md_httpStatusText := map_option snd response \<rparr> \<rparr>, Suc n1)
             | Inl e \<Rightarrow> (Inl (ConnectionError e), Suc n1)))"

text \<open>
  \<^verbatim>\<open>parseSpecification\<close>. \<^verbatim>\<open>JSON.parse\<close> and \<^verbatim>\<open>yaml.parse\<close> are parameters (\<open>None\<close>
  when they throw); every failure leaves as a SchemaParsingError.
\<close>

definition parseSpecification ::
  "(string \<Rightarrow> json option) \<Rightarrow> (string \<Rightarrow> json option) \<Rightarrow> json \<Rightarrow> exn + json" where
  "parseSpecification jsonParse yamlParse d =
     (if isObject d then Inr d
      else (case d of
              JStr s \<Rightarrow>
                (case jsonParse s of
                   Some v \<Rightarrow> Inr v
                 | None \<Rightarrow>
                     (case yamlParse s of
                        Some v \<Rightarrow> Inr v
                      | None \<Rightarrow> Inl (SchemaParsingError SyntaxError)))
            | _ \<Rightarrow> Inl (SchemaParsingError (GenericError ''Invalid specification format''))))"

text \<open>The regular expression \<^verbatim>\<open>/^3\.\d+\.\d+$/\<close>.\<close>

definition matchesOpenAPI3 :: "string \<Rightarrow> bool" where
  "matchesOpenAPI3 s =
     (case s of
        c1 # c2 # rest \<Rightarrow>
          c1 = CHR ''3'' \<and> c2 = CHR ''.'' \<and> takeWhile isDigit rest \<noteq> [] \<and>
          (case dropWhile isDigit rest of
             d # minor \<Rightarrow> d = CHR ''.'' \<and> minor \<noteq> [] \<and> list_all isDigit minor
           | [] \<Rightarrow> False)
      | _ \<Rightarrow> False)"

record ValidationResult =
  v_valid :: bool
  v_errors :: "string list"
  v_warnings :: "warning list"

text \<open>\<^verbatim>\<open>Object.keys(v).length\<close> of a truthy value.\<close>

definition keyCount :: "json \<Rightarrow> nat" where
  "keyCount v =
     (case v of
        JObj kvs \<Rightarrow> length kvs
      | JArr xs \<Rightarrow> length xs
      | JStr s \<Rightarrow> length s
      | _ \<Rightarrow> 0)"

text \<open>
  \<^verbatim>\<open>validateSpecification\<close>, on whatever value the parser returned: the entries it
  pushes to \<^verbatim>\<open>errors\<close> and to \<^verbatim>\<open>warnings\<close>, each in source order, and the result.
  Reading \<^verbatim>\<open>spec.info\<close> of \<^verbatim>\<open>null\<close> and calling \<^verbatim>\<open>.match\<close> on a truthy
  \<^verbatim>\<open>openapi\<close> that is not a string are TypeErrors.
\<close>

definition validationErrors :: "json \<Rightarrow> string list" where
  "validationErrors spec =
     (if \<not> truthyOpt (propOf spec ''info'') then [''Missing required field: info'']
      else
        (if \<not> truthyOpt (propOf (the (propOf spec ''info'')) ''title'')
         then [''Missing required field: info.title''] else []) @
        (if \<not> truthyOpt (propOf (the (propOf spec ''info'')) ''version'')
         then [''Missing required field: info.version''] else [])) @
     (if \<not> truthyOpt (propOf spec ''paths'') then [''Missing required field: paths''] else []) @
     (if \<not> truthyOpt (propOf spec ''openapi'') \<and> \<not> truthyOpt (propOf spec ''swagger'')
      then [''Missing version field (openapi or swagger)''] else [])"

definition validationWarnings :: "json \<Rightarrow> warning list" where
  "validationWarnings spec =
     (if truthyOpt (propOf spec ''paths'') \<and> keyCount (the (propOf spec ''paths'')) = 0
      then [NoPathsDefined] else []) @
     (case propOf spec ''openapi'' of
        Some (JStr s) \<Rightarrow>
          if s \<noteq> [] \<and> \<not> matchesOpenAPI3 s then [UnsupportedOpenAPIVersion s] else []
      | _ \<Rightarrow> []) @
     (if truthyOpt (propOf spec ''swagger'') \<and> propOf spec ''swagger'' \<noteq> Some (JStr ''2.0'')
      then [UnsupportedSwaggerVersion (the (propOf spec ''swagger''))] else [])"

definition validateSpecification :: "json \<Rightarrow> exn + ValidationResult" where
  "validateSpecification spec =
     (if spec = JNull then Inl TypeError
      else if truthyOpt (propOf spec ''openapi'') \<and>
              (case propOf spec ''openapi'' of Some (JStr s) \<Rightarrow> False | _ \<Rightarrow> True)
      then Inl TypeError
      else Inr \<lparr> v_valid = (validationErrors spec = []),
                 v_errors = validationErrors spec,
                 v_warnings = validationWarnings spec \<rparr>)"

text \<open>
  The tail of \<^verbatim>\<open>introspect\<close> once the document is parsed: validation, then the
  conversion. The schema converter \<^verbatim>\<open>convertSchema\<close> is a parameter.
\<close>

definition reportSpecification ::
  "(json \<Rightarrow> string \<Rightarrow> exn + 's) \<Rightarrow> RESTConnectorConfig \<Rightarrow> string \<Rightarrow> json \<Rightarrow> json
     \<Rightarrow> exn + 's IntrospectionResult" where
  "reportSpecification convertSchema config specUrl d spec =
     (case validateSpecification spec of
        Inl e \<Rightarrow> Inl e
      | Inr validationResult \<Rightarrow>
          if \<not> v_valid validationResult then
            Inr \<lparr> ir_success = False, ir_schema = None,
                  ir_error = Some (''Invalid OpenAPI specification: '' @
                                   joinWith '', '' (v_errors validationResult)),
                  ir_warnings = None,
                  ir_metadata = Some ((metadataFor (rc_url config))
                    \<lparr> md_specUrl := Some specUrl,
                      md_validationErrors := Some (v_errors validationResult) \<rparr>) \<rparr>
          else
            (case convertSchema spec specUrl of
               Inl e \<Rightarrow> Inl e
             | Inr schema \<Rightarrow>
                 Inr \<lparr> ir_success = True, ir_schema = Some schema, ir_error = None,
                       ir_warnings = Some (v_warnings validationResult),
                       ir_metadata = Some ((metadataFor (rc_url config))
                         \<lparr> md_specUrl := Some specUrl,
                           md_specFormat := Some (detectSpecificationFormat d) \<rparr>) \<rparr>))"

text \<open>The body of the \<^verbatim>\<open>try\<close> block of \<^verbatim>\<open>introspect\<close>.\<close>

definition introspectBody ::
  "http \<Rightarrow> (string \<Rightarrow> json option) \<Rightarrow> (string \<Rightarrow> json option) \<Rightarrow> (json \<Rightarrow> string \<Rightarrow> exn + 's)
     \<Rightarrow> RESTConnectorConfig \<Rightarrow> nat \<Rightarrow> exn + 's IntrospectionResult" where
  "introspectBody http jsonParse yamlParse convertSchema config n =
     (case testConnection http config n of
        (Inl e, n1) \<Rightarrow> Inl e
      | (Inr connectionTest, n1) \<Rightarrow>
          if \<not> ct_success connectionTest then
            Inr \<lparr> ir_success = False, ir_schema = None,
                  ir_error = Some (''Connection test failed: '' @
                     (case ct_error connectionTest of None \<Rightarrow> ''undefined'' | Some e \<Rightarrow> e)),
                  ir_warnings = None,
                  ir_metadata = Some (ct_metadata connectionTest) \<rparr>
          else
            (case discoverSpecificationUrl http config n1 of
               (specUrl, n2) \<Rightarrow>
                 if \<not> truthyStr specUrl then
                   Inr \<lparr> ir_success = False, ir_schema = None,
                         ir_error = Some ''Could not discover OpenAPI specification URL'',
                         ir_warnings = None,
                         ir_metadata = Some ((metadataFor (rc_url config))
                           \<lparr> md_triedPaths := Some (getPathsToTry config) \<rparr>) \<rparr>
                 else
                   (case http n2 GET (the specUrl) of
                      Inl e \<Rightarrow> Inl e
                    | Inr response \<Rightarrow>
                        (case parseSpecification jsonParse yamlParse (resp_data response) of
                           Inl e \<Rightarrow> Inl e
                         | Inr spec \<Rightarrow>
                             reportSpecification convertSchema config (the specUrl)
                               (resp_data response) spec))))"

text \<open>
  \<^verbatim>\<open>RESTConnector.introspect\<close>: the \<^verbatim>\<open>catch\<close> clause rethrows a ConnectionError and
  throws every other error as an IntrospectionError.
\<close>

definition introspect ::
  "http \<Rightarrow> (string \<Rightarrow> json option) \<Rightarrow> (string \<Rightarrow> json option) \<Rightarrow> (json \<Rightarrow> string \<Rightarrow> exn + 's)
     \<Rightarrow> RESTConnectorConfig \<Rightarrow> nat \<Rightarrow> exn + 's IntrospectionResult" where
  "introspect http jsonParse yamlParse convertSchema config n =
     (case introspectBody http jsonParse yamlParse convertSchema config n of
        Inl (ConnectionError e) \<Rightarrow> Inl (ConnectionError e)
      | Inl e \<Rightarrow> Inl (IntrospectionError e)
      | Inr result \<Rightarrow> Inr result)"

section \<open>GraphQL connector (\<^verbatim>\<open>connectors/graphql/graphql-connector.ts\<close>)\<close>














text \<open>Example collaborators and documents for the closed theorems.\<close>

definition notFound :: exn where
  "notFound = AxiosError (Some (404, ''Not Found'')) ''Request failed with status code 404''"

definition deadHttp :: http where
  "deadHttp n method url = Inl notFound"


definition unitConverter :: "json \<Rightarrow> string \<Rightarrow> exn + unit" where
  "unitConverter spec url = Inr ()"














text \<open>
  The specification's view of pattern inference: the values it analyses (the truthy,
  object-typed \<^verbatim>\<open>parsed\<close> members, in capture order) and the group of a signature.
\<close>

definition analysedValue :: "WebSocketMessage \<Rightarrow> json option" where
  "analysedValue message =
     (case wm_parsed message of
        None \<Rightarrow> None
      | Some parsed \<Rightarrow>
          if \<not> truthy parsed \<or> typeof parsed \<noteq> ''object'' then None else Some parsed)"

definition analysedValues :: "WebSocketMessage list \<Rightarrow> json list" where
  "analysedValues messages = List.map_filter analysedValue messages"

definition signatureGroup :: "string \<Rightarrow> json list \<Rightarrow> json list" where
  "signatureGroup signature values = filter (\<lambda>v. getMessageSignature v = signature) values"

text \<open>
  What the first loop of \<^verbatim>\<open>analyzeMessagePatterns\<close> maintains: \<^verbatim>\<open>patternMap\<close> has one
  entry per signature seen so far, holding the signature's group as its examples and
  every top-level key of these examples among its fields.
\<close>

definition groupsCollected :: "(string \<times> patternData) list \<Rightarrow> json list \<Rightarrow> bool" where
  "groupsCollected patternMap values =
     (distinct (map fst patternMap) \<and>
      (\<forall>signature.
         case map_of patternMap signature of
           None \<Rightarrow> signatureGroup signature values = []
         | Some pd \<Rightarrow>
             pd_examples pd = signatureGroup signature values \<and> pd_examples pd \<noteq> [] \<and>
             list_all (\<lambda>v. set (objectKeys v) \<subseteq> set (pd_fields pd)) (pd_examples pd)))"

section \<open>Verified properties\<close>

subsection \<open>Helper lemmas\<close>

lemma outermost_imp_anywhere: "ref_kind t = NON_NULL \<Longrightarrow> hasNonNullAnywhere t"
  by (cases t rule: hasNonNullAnywhere.cases) simp_all

lemma update_memD:
  "(k, v) \<in> set (AList.update k' v' al) \<Longrightarrow> (k, v) \<in> set al \<or> (k = k' \<and> v = v')"
  by (induction al) (auto split: if_splits)

lemma insertIndexed_set: "set (insertIndexed k v al) = insert (k, v) (set al)"
  by (induction al) auto

lemma setProperty_memD:
  "(k, v) \<in> set (setProperty k' v' al) \<Longrightarrow> (k, v) \<in> set al \<or> (k = k' \<and> v = v')"
  by (auto simp: setProperty_def insertIndexed_set split: if_splits dest: update_memD)

lemma assignAll_sound:
  "assignAll key f xs props = Inr ps \<Longrightarrow> (k, v) \<in> set ps \<Longrightarrow>
     (k, v) \<in> set props \<or> (\<exists>x \<in> set xs. key x = k \<and> f x = Inr v)"
proof (induction xs arbitrary: props)
  case Nil
  then show ?case by simp
next
  case (Cons x xs)
  from Cons.prems(1) obtain y where fx: "f x = Inr y"
    and rest: "assignAll key f xs (setProperty (key x) y props) = Inr ps"
    by (auto split: sum.splits)
  from Cons.IH [OF rest Cons.prems(2)]
  show ?case
  proof
    assume "(k, v) \<in> set (setProperty (key x) y props)"
    then have "(k, v) \<in> set props \<or> (k = key x \<and> v = y)"
      by (rule setProperty_memD)
    then show ?thesis using fx by auto
  next
    assume "\<exists>x \<in> set xs. key x = k \<and> f x = Inr v"
    then show ?thesis by auto
  qed
qed

lemma mapM_total:
  "(\<And>x. x \<in> set xs \<Longrightarrow> \<exists>y. f x = Inr y) \<Longrightarrow> \<exists>ys. mapM f xs = Inr ys"
proof (induction xs)
  case Nil
  then show ?case by simp
next
  case (Cons x xs)
  obtain y where "f x = Inr y" using Cons.prems by auto
  moreover obtain ys where "mapM f xs = Inr ys" using Cons by auto
  ultimately show ?case by simp
qed

lemma unwrap_nonNullListOfNonNullString:
  "convertGraphQLTypeToDataType nonNullListOfNonNullString = ARRAY"
  by (simp add: convertGraphQLTypeToDataType_def nonNullListOfNonNullString_def
        listOfNonNullString_def wrapType_def namedType_def)

subsection \<open>GraphQL: which fields are required\<close>

text \<open>
  C4, as stated, at \<^verbatim>\<open>LIST(NON_NULL(String))\<close>: the chain contains a \<^verbatim>\<open>NON_NULL\<close>
  wrapper, yet the converted argument (its parameter and its schema) and the converted
  field are not required.
\<close>

theorem c4_inner_non_null_counterexample:
  "hasNonNullAnywhere listOfNonNullString
   \<and> map_sum id p_required (convertInputValueToParameter parseNothing tagsArg) = Inr False
   \<and> map_sum id (sf_required \<circ> p_schema) (convertInputValueToParameter parseNothing tagsArg)
       = Inr False
   \<and> map_sum id sf_required (convertFieldProperty parseNothing tagsField) = Inr False
   \<and> map_sum id sf_required (convertInputFieldProperty parseNothing tagsArg) = Inr False"
  by (simp add: listOfNonNullString_def wrapType_def namedType_def tagsArg_def tagsField_def
        convertInputValueToParameter_def convertFieldProperty_def convertInputFieldProperty_def
        parseDefaultValue_def isNonNullType_def)

text \<open>
  C4, amended: a converted field, input field or argument is required exactly when the
  outermost wrapper of its type is \<^verbatim>\<open>NON_NULL\<close>; so it is optional whenever no
  \<^verbatim>\<open>NON_NULL\<close> occurs in the chain, and every property of a converted type comes from
  one of its fields or input fields in this way. The conversions return whenever the
  default values involved are absent or parse as JSON.
\<close>

theorem c4_required_iff_outermost_non_null:
  "(convertInputValueToParameter parse iv = Inr p \<longrightarrow>
      p_required p = (ref_kind (iv_type iv) = NON_NULL) \<and>
      sf_required (p_schema p) = (ref_kind (iv_type iv) = NON_NULL) \<and>
      (\<not> hasNonNullAnywhere (iv_type iv) \<longrightarrow> \<not> p_required p))
   \<and> (convertFieldProperty parse f = Inr sf \<longrightarrow>
      sf_required sf = (ref_kind (f_type f) = NON_NULL) \<and>
      (\<not> hasNonNullAnywhere (f_type f) \<longrightarrow> \<not> sf_required sf))
   \<and> (convertInputFieldProperty parse iv = Inr sf' \<longrightarrow>
      sf_required sf' = (ref_kind (iv_type iv) = NON_NULL) \<and>
      (\<not> hasNonNullAnywhere (iv_type iv) \<longrightarrow> \<not> sf_required sf'))
   \<and> (convertTypeToSchemaField parse type = Inr tsf \<longrightarrow>
      (\<forall>props k v. sf_properties tsf = Some props \<longrightarrow> (k, v) \<in> set props \<longrightarrow>
         (\<exists>fld \<in> set (orEmpty (t_fields type)). f_name fld = k \<and>
              sf_required v = (ref_kind (f_type fld) = NON_NULL))
         \<or> (\<exists>inp \<in> set (orEmpty (t_inputFields type)). iv_name inp = k \<and>
              sf_required v = (ref_kind (iv_type inp) = NON_NULL))))
   \<and> ((\<exists>dv. parseDefaultValue parse (iv_defaultValue iv) = Inr dv) \<longrightarrow>
      (\<exists>q. convertInputValueToParameter parse iv = Inr q) \<and>
      (\<exists>s. convertInputFieldProperty parse iv = Inr s))
   \<and> ((\<forall>a \<in> set (f_args f). \<exists>dv. parseDefaultValue parse (iv_defaultValue a) = Inr dv) \<longrightarrow>
      (\<exists>s. convertFieldProperty parse f = Inr s))"
proof -
  have e: "(\<exists>dv. parseDefaultValue parse (iv_defaultValue iv) = Inr dv) \<longrightarrow>
      (\<exists>q. convertInputValueToParameter parse iv = Inr q) \<and>
      (\<exists>s. convertInputFieldProperty parse iv = Inr s)"
    by (auto simp: convertInputValueToParameter_def convertInputFieldProperty_def)
  have g: "(\<forall>a \<in> set (f_args f). \<exists>dv. parseDefaultValue parse (iv_defaultValue a) = Inr dv) \<longrightarrow>
      (\<exists>s. convertFieldProperty parse f = Inr s)"
  proof
    assume ok: "\<forall>a \<in> set (f_args f). \<exists>dv. parseDefaultValue parse (iv_defaultValue a) = Inr dv"
    have "\<exists>y. convertInputValueToParameter parse a = Inr y" if "a \<in> set (f_args f)" for a
      using ok that by (auto simp: convertInputValueToParameter_def)
    then obtain ps where "mapM (convertInputValueToParameter parse) (f_args f) = Inr ps"
      using mapM_total [of "f_args f" "convertInputValueToParameter parse"] by blast
    then show "\<exists>s. convertFieldProperty parse f = Inr s"
      by (simp add: convertFieldProperty_def)
  qed
  have a: "convertInputValueToParameter parse iv = Inr p \<longrightarrow>
      p_required p = (ref_kind (iv_type iv) = NON_NULL) \<and>
      sf_required (p_schema p) = (ref_kind (iv_type iv) = NON_NULL) \<and>
      (\<not> hasNonNullAnywhere (iv_type iv) \<longrightarrow> \<not> p_required p)"
    using outermost_imp_anywhere [of "iv_type iv"]
    by (auto simp: convertInputValueToParameter_def isNonNullType_def split: sum.splits)
  have b: "convertFieldProperty parse g = Inr s \<Longrightarrow>
      sf_required s = (ref_kind (f_type g) = NON_NULL)" for g s
    by (auto simp: convertFieldProperty_def isNonNullType_def split: sum.splits)
  have c: "convertInputFieldProperty parse i = Inr s \<Longrightarrow>
      sf_required s = (ref_kind (iv_type i) = NON_NULL)" for i s
    by (auto simp: convertInputFieldProperty_def isNonNullType_def split: sum.splits)
  have d: "(\<exists>fld \<in> set (orEmpty (t_fields type)). f_name fld = k \<and>
              sf_required v = (ref_kind (f_type fld) = NON_NULL))
         \<or> (\<exists>inp \<in> set (orEmpty (t_inputFields type)). iv_name inp = k \<and>
              sf_required v = (ref_kind (iv_type inp) = NON_NULL))"
    if conv: "convertTypeToSchemaField parse type = Inr tsf"
      and props: "sf_properties tsf = Some props" and mem: "(k, v) \<in> set props"
    for props k v
  proof -
    from conv props obtain props1 where
      p1: "assignAll f_name (convertFieldProperty parse) (orEmpty (t_fields type)) [] = Inr props1"
      and p2: "assignAll iv_name (convertInputFieldProperty parse)
                 (orEmpty (t_inputFields type)) props1 = Inr props"
      by (auto simp: convertTypeToSchemaField_def split: sum.splits)
    from assignAll_sound [OF p2 mem]
    show ?thesis
    proof
      assume "(k, v) \<in> set props1"
      from assignAll_sound [OF p1 this] show ?thesis using b by auto
    next
      assume "\<exists>x \<in> set (orEmpty (t_inputFields type)).
                iv_name x = k \<and> convertInputFieldProperty parse x = Inr v"
      then show ?thesis using c by auto
    qed
  qed
  have main: "(convertInputValueToParameter parse iv = Inr p \<longrightarrow>
      p_required p = (ref_kind (iv_type iv) = NON_NULL) \<and>
      sf_required (p_schema p) = (ref_kind (iv_type iv) = NON_NULL) \<and>
      (\<not> hasNonNullAnywhere (iv_type iv) \<longrightarrow> \<not> p_required p))
   \<and> (convertFieldProperty parse f = Inr sf \<longrightarrow>
      sf_required sf = (ref_kind (f_type f) = NON_NULL) \<and>
      (\<not> hasNonNullAnywhere (f_type f) \<longrightarrow> \<not> sf_required sf))
   \<and> (convertInputFieldProperty parse iv = Inr sf' \<longrightarrow>
      sf_required sf' = (ref_kind (iv_type iv) = NON_NULL) \<and>
      (\<not> hasNonNullAnywhere (iv_type iv) \<longrightarrow> \<not> sf_required sf'))
   \<and> (convertTypeToSchemaField parse type = Inr tsf \<longrightarrow>
      (\<forall>props k v. sf_properties tsf = Some props \<longrightarrow> (k, v) \<in> set props \<longrightarrow>
         (\<exists>fld \<in> set (orEmpty (t_fields type)). f_name fld = k \<and>
              sf_required v = (ref_kind (f_type fld) = NON_NULL))
         \<or> (\<exists>inp \<in> set (orEmpty (t_inputFields type)). iv_name inp = k \<and>
              sf_required v = (ref_kind (iv_type inp) = NON_NULL))))"
    using a b [of f sf] c [of iv sf'] d
      outermost_imp_anywhere [of "f_type f"] outermost_imp_anywhere [of "iv_type iv"]
    by blast
  from main e g show ?thesis by blast
qed

theorem c4_required_iff_outermost_non_null_witness:
  "convertInputValueToParameter parseNothing tagsArg
     = Inr (projr (convertInputValueToParameter parseNothing tagsArg))
   \<and> \<not> p_required (projr (convertInputValueToParameter parseNothing tagsArg))
   \<and> convertFieldProperty parseNothing petsField
     = Inr (projr (convertFieldProperty parseNothing petsField))
   \<and> sf_required (projr (convertFieldProperty parseNothing petsField))
   \<and> convertInputFieldProperty parseNothing tagsArg
     = Inr (projr (convertInputFieldProperty parseNothing tagsArg))
   \<and> \<not> sf_required (projr (convertInputFieldProperty parseNothing tagsArg))"
  using c4_required_iff_outermost_non_null
    [of parseNothing tagsArg "projr (convertInputValueToParameter parseNothing tagsArg)"
       petsField "projr (convertFieldProperty parseNothing petsField)"
       "projr (convertInputFieldProperty parseNothing tagsArg)"]
  by (simp add: listOfNonNullString_def nonNullListOfNonNullString_def wrapType_def
        namedType_def tagsArg_def petsField_def convertInputValueToParameter_def
        convertFieldProperty_def convertInputFieldProperty_def parseDefaultValue_def
        parseNothing_def)

subsection \<open>GraphQL: non-null list of non-null strings\<close>

text \<open>
  C5: a field of type \<^verbatim>\<open>NON_NULL(LIST(NON_NULL(String)))\<close> converts to a SchemaField of
  type \<^verbatim>\<open>array\<close> with \<^verbatim>\<open>required: true\<close>; the conversion returns whenever the default
  values of the field's arguments are absent or parse as JSON.
\<close>

theorem c5_non_null_list_is_required_array:
  assumes "f_type field = nonNullListOfNonNullString"
  shows "(\<forall>sf. convertFieldProperty parse field = Inr sf \<longrightarrow>
            sf_type sf = ARRAY \<and> sf_required sf \<and> sf_name sf = f_name field)
         \<and> ((\<forall>a \<in> set (f_args field).
               \<exists>dv. parseDefaultValue parse (iv_defaultValue a) = Inr dv) \<longrightarrow>
             (\<exists>sf. convertFieldProperty parse field = Inr sf))"
proof
  show "\<forall>sf. convertFieldProperty parse field = Inr sf \<longrightarrow>
          sf_type sf = ARRAY \<and> sf_required sf \<and> sf_name sf = f_name field"
    using assms unwrap_nonNullListOfNonNullString
    by (auto simp: convertFieldProperty_def isNonNullType_def nonNullListOfNonNullString_def
          wrapType_def split: sum.splits)
next
  show "(\<forall>a \<in> set (f_args field).
           \<exists>dv. parseDefaultValue parse (iv_defaultValue a) = Inr dv) \<longrightarrow>
        (\<exists>sf. convertFieldProperty parse field = Inr sf)"
  proof
    assume ok: "\<forall>a \<in> set (f_args field).
                  \<exists>dv. parseDefaultValue parse (iv_defaultValue a) = Inr dv"
    have "\<exists>y. convertInputValueToParameter parse a = Inr y" if "a \<in> set (f_args field)" for a
      using ok that by (auto simp: convertInputValueToParameter_def)
    then obtain ps where "mapM (convertInputValueToParameter parse) (f_args field) = Inr ps"
      using mapM_total [of "f_args field" "convertInputValueToParameter parse"] by blast
    then show "\<exists>sf. convertFieldProperty parse field = Inr sf"
      by (simp add: convertFieldProperty_def)
  qed
qed

theorem c5_non_null_list_is_required_array_witness:
  "f_type petsField = nonNullListOfNonNullString
   \<and> convertFieldProperty parseNothing petsField
       = Inr (SchemaField ''pets'' ARRAY True None None None None None
               (Some (FieldMeta False None
                  [\<lparr> p_name = ''tags'', p_location = LocBody,
                     p_schema = SchemaField ''tags'' ARRAY False None None None None None None,
                     p_required = False, p_description = None \<rparr>])))"
  using c5_non_null_list_is_required_array [of petsField parseNothing]
  by (simp add: listOfNonNullString_def nonNullListOfNonNullString_def wrapType_def
        namedType_def tagsArg_def petsField_def convertInputValueToParameter_def
        convertFieldProperty_def parseDefaultValue_def isNonNullType_def
        convertGraphQLTypeToDataType_def)

subsection \<open>REST: schema references\<close>

lemma resolvedSchemaOf_ref:
  "truthyStr (os_ref schema) \<Longrightarrow>
     resolvedSchemaOf schema = resolveSchemaReference (the (os_ref schema))"
  by (auto simp: resolvedSchemaOf_def truthyStr_def split: option.splits)

text \<open>
  C6, as stated, at \<^verbatim>\<open>{ $ref: '#/components/schemas/Pet' }\<close>: the converted field carries
  no trace of the referenced name. It is the same field as the one converted from a
  reference to \<^verbatim>\<open>User\<close>, and its only string is the name the caller passed.
\<close>

theorem c6_ref_name_dropped_counterexample:
  "truthyStr (os_ref refToPet)
   \<and> os_ref refToPet \<noteq> os_ref refToUser
   \<and> convertOpenAPISchemaToSchemaField refToPet ''owner''
       = convertOpenAPISchemaToSchemaField refToUser ''owner''
   \<and> convertOpenAPISchemaToSchemaField refToPet ''owner''
       = SchemaField ''owner'' OBJECT False None None None None None (Some emptyOpenAPIMeta)"
  by (simp add: refToPet_def refToUser_def resolvedSchemaOf_def resolveSchemaReference_def
        truthyStr_def mapOpenAPITypeToDataType_def extractSchemaConstraints_def
        emptyOpenAPIMeta_def)

text \<open>
  C6, amended: a schema object with a (non-empty) \<^verbatim>\<open>$ref\<close> converts to a fixed stub:
  the caller's field name, type \<^verbatim>\<open>object\<close>, not required, no items, no properties, no
  constraints and empty metadata. The referenced schema is never looked up, so nothing is
  inlined, and the stub does not depend on the reference.
\<close>

theorem c6_ref_is_object_stub:
  assumes "truthyStr (os_ref schema)"
  shows "convertOpenAPISchemaToSchemaField schema name
           = SchemaField name OBJECT False None None None None None (Some emptyOpenAPIMeta)"
proof -
  have r: "resolvedSchemaOf schema = resolveSchemaReference (the (os_ref schema))"
    using assms by (rule resolvedSchemaOf_ref)
  show ?thesis
    by (subst convertOpenAPISchemaToSchemaField.simps)
      (simp add: r resolveSchemaReference_def truthyStr_def mapOpenAPITypeToDataType_def
         extractSchemaConstraints_def emptyOpenAPIMeta_def)
qed

theorem c6_ref_is_object_stub_witness:
  "truthyStr (os_ref refToUser)
   \<and> convertOpenAPISchemaToSchemaField refToUser ''author''
       = SchemaField ''author'' OBJECT False None None None None None (Some emptyOpenAPIMeta)"
  using c6_ref_is_object_stub [of refToUser "''author''"]
  by (simp add: refToUser_def truthyStr_def)

subsection \<open>Storage: query pagination\<close>















subsection \<open>Storage: the Memory backend's ceiling\<close>

lemma length_deleteKey_less:
  "k \<in> fst ` set al \<Longrightarrow> length (deleteKey k al) < length al"
  unfolding deleteKey_def by (rule length_filter_less [of "SOME e. e \<in> set al \<and> fst e = k"])
    (auto intro: someI2_ex)

lemma foldl_deleteKey_le:
  "length (foldl (\<lambda>acc entry. deleteKey (fst entry) acc) al es) \<le> length al"
proof (induction es arbitrary: al)
  case Nil
  then show ?case by simp
next
  case (Cons e es)
  have "length (foldl (\<lambda>acc entry. deleteKey (fst entry) acc) (deleteKey (fst e) al) es)
          \<le> length (deleteKey (fst e) al)"
    by (rule Cons.IH)
  also have "\<dots> \<le> length al" by (simp add: deleteKey_def)
  finally show ?case by simp
qed

lemma cleanup_without_max_age_shrinks:
  assumes "\<not> truthyNum (ms_maxAge st)" and "cleanup now st = Inr st'"
  shows "length (ms_schemas st') < length (ms_schemas st)
         \<and> ms_maxAge st' = ms_maxAge st \<and> ms_maxSchemas st' = ms_maxSchemas st
         \<and> ms_initialized st' = ms_initialized st"
proof -
  let ?sorted = "sort_key (\<lambda>entry. us_discoveredAt (snd entry)) (ms_schemas st)"
  let ?n = "max 1 (length ?sorted div 10)"
  from assms have le: "?n \<le> length ?sorted"
    and st': "st' = st\<lparr> ms_schemas :=
                  foldl (\<lambda>acc entry. deleteKey (fst entry) acc) (ms_schemas st)
                    (take ?n ?sorted) \<rparr>"
    by (auto simp: cleanup_def Let_def split: if_splits)
  from le have "length (take ?n ?sorted) \<noteq> 0" by simp
  then obtain e es where t: "take ?n ?sorted = e # es"
    by (cases "take ?n ?sorted") (simp_all del: length_take)
  have "e \<in> set (take ?n ?sorted)" using t by simp
  then have "e \<in> set (ms_schemas st)" by (auto dest: in_set_takeD)
  then have "length (deleteKey (fst e) (ms_schemas st)) < length (ms_schemas st)"
    by (intro length_deleteKey_less) auto
  moreover have "length (foldl (\<lambda>acc entry. deleteKey (fst entry) acc)
                    (deleteKey (fst e) (ms_schemas st)) es)
                  \<le> length (deleteKey (fst e) (ms_schemas st))"
    by (rule foldl_deleteKey_le)
  ultimately show ?thesis unfolding st' t by simp
qed

lemma length_update_le: "length (AList.update k v al) \<le> Suc (length al)"
  by (induction al) auto

text \<open>
  The sibling branch: without a maximum age, \<^verbatim>\<open>store\<close> keeps a store that is within a
  positive ceiling within it.
\<close>

lemma store_without_max_age_keeps_ceiling:
  assumes "\<not> truthyNum (ms_maxAge st)" and "ms_maxSchemas st = Some M" and "0 < M"
    and "int (length (ms_schemas st)) \<le> M" and "store now schema st = Inr (st', ident)"
  shows "int (length (ms_schemas st')) \<le> M"
proof (cases "int (length (ms_schemas st)) \<ge> M")
  case True
  with assms obtain st1 where c: "cleanup now st = Inr st1"
    and s: "st' = st1\<lparr> ms_schemas := AList.update (us_id schema) schema (ms_schemas st1) \<rparr>"
    by (auto simp: store_def truthyNum_def orZero_def split: if_splits sum.splits)
  from cleanup_without_max_age_shrinks [OF assms(1) c]
  have "length (ms_schemas st1) < length (ms_schemas st)" by simp
  with assms(4) have "int (Suc (length (ms_schemas st1))) \<le> M" by simp
  moreover have "length (ms_schemas st') \<le> Suc (length (ms_schemas st1))"
    unfolding s using length_update_le by simp
  ultimately show ?thesis by linarith
next
  case False
  with assms have s: "st' = st\<lparr> ms_schemas := AList.update (us_id schema) schema (ms_schemas st) \<rparr>"
    by (auto simp: store_def truthyNum_def orZero_def split: if_splits sum.splits)
  have "length (ms_schemas st') \<le> Suc (length (ms_schemas st))"
    unfolding s using length_update_le by simp
  with False show ?thesis by linarith
qed

text \<open>
  C8 at its failing input: a Memory store configured with \<^verbatim>\<open>maxSchemas = 2\<close> (and the
  default \<^verbatim>\<open>maxAge\<close>) holds three schemas after three \<^verbatim>\<open>store\<close> calls for schemas
  discovered at the time of the call: \<^verbatim>\<open>cleanup\<close> finds nothing older than the maximum
  age, so nothing is evicted before the third insertion.
\<close>

theorem c8_ceiling_exceeded_with_max_age:
  "ms_maxSchemas twoSchemaStore = Some 2 \<and> ms_maxAge twoSchemaStore = Some 86400000
   \<and> map_sum id (map fst \<circ> ms_schemas)
        (storeAll 1700000000000
           [mkSchema ''a'' 1700000000000, mkSchema ''b'' 1700000000000,
            mkSchema ''c'' 1700000000000] twoSchemaStore)
       = Inr [''a'', ''b'', ''c'']"
  by code_simp

subsection \<open>WebSocket: pattern inference\<close>

lemma recordField_fields:
  "set (fst (recordField name v acc)) = insert name (set (fst acc))"
  by (auto simp: recordField_def addToSet_def)

lemma analyze_mono:
  "(\<forall>prefix acc. set (fst acc) \<subseteq> set (fst (analyzeObjectFields v prefix acc)))
   \<and> (\<forall>i prefix acc. set (fst acc) \<subseteq> set (fst (analyzeItems xs i prefix acc)))
   \<and> (\<forall>prefix acc. set (fst acc) \<subseteq> set (fst (analyzeProp entry prefix acc)))
   \<and> (\<forall>prefix acc. set (fst acc) \<subseteq> set (fst (analyzeProps kvs prefix acc)))"
proof (rule analyzeObjectFields_analyzeProps_analyzeProp_analyzeItems.induct
    [where ?P1.0 = "\<lambda>v. \<forall>prefix acc. set (fst acc) \<subseteq> set (fst (analyzeObjectFields v prefix acc))"
       and ?P2.0 = "\<lambda>xs. \<forall>i prefix acc. set (fst acc) \<subseteq> set (fst (analyzeItems xs i prefix acc))"
       and ?P3.0 = "\<lambda>entry. \<forall>prefix acc. set (fst acc) \<subseteq> set (fst (analyzeProp entry prefix acc))"
       and ?P4.0 = "\<lambda>kvs. \<forall>prefix acc. set (fst acc) \<subseteq> set (fst (analyzeProps kvs prefix acc))"])
  fix x1 :: json and x2 :: "json list"
  assume v: "\<forall>prefix acc. set (fst acc) \<subseteq> set (fst (analyzeObjectFields x1 prefix acc))"
    and rest: "\<forall>i prefix acc. set (fst acc) \<subseteq> set (fst (analyzeItems x2 i prefix acc))"
  show "\<forall>i prefix acc. set (fst acc) \<subseteq> set (fst (analyzeItems (x1 # x2) i prefix acc))"
  proof (intro allI)
    fix i prefix acc
    let ?name = "fieldNameOf prefix (showNat i)"
    let ?next = "if isObject x1 \<and> splitLength prefix < 3
                 then analyzeObjectFields x1 ?name (recordField ?name x1 acc)
                 else recordField ?name x1 acc"
    have "set (fst acc) \<subseteq> set (fst (recordField ?name x1 acc))"
      by (auto simp: recordField_fields)
    also have "\<dots> \<subseteq> set (fst ?next)"
      using v [rule_format, where acc = "recordField ?name x1 acc" and prefix = ?name]
      by auto
    also have "\<dots> \<subseteq> set (fst (analyzeItems x2 (Suc i) prefix ?next))" using rest by blast
    finally show "set (fst acc) \<subseteq> set (fst (analyzeItems (x1 # x2) i prefix acc))" by simp
  qed
next
  fix x1 :: string and x2 :: json
  assume v: "\<forall>prefix acc. set (fst acc) \<subseteq> set (fst (analyzeObjectFields x2 prefix acc))"
  show "\<forall>prefix acc. set (fst acc) \<subseteq> set (fst (analyzeProp (x1, x2) prefix acc))"
  proof (intro allI)
    fix prefix acc
    let ?name = "fieldNameOf prefix x1"
    have "set (fst acc) \<subseteq> set (fst (recordField ?name x2 acc))"
      by (auto simp: recordField_fields)
    also have "\<dots> \<subseteq> set (fst (analyzeProp (x1, x2) prefix acc))"
      using v [rule_format, where acc = "recordField ?name x2 acc" and prefix = ?name]
      by auto
    finally show "set (fst acc) \<subseteq> set (fst (analyzeProp (x1, x2) prefix acc))" .
  qed
next
  fix x1 :: "string \<times> json" and x2 :: "(string \<times> json) list"
  assume e: "\<forall>prefix acc. set (fst acc) \<subseteq> set (fst (analyzeProp x1 prefix acc))"
    and rest: "\<forall>prefix acc. set (fst acc) \<subseteq> set (fst (analyzeProps x2 prefix acc))"
  show "\<forall>prefix acc. set (fst acc) \<subseteq> set (fst (analyzeProps (x1 # x2) prefix acc))"
  proof (intro allI)
    fix prefix acc
    have "set (fst acc) \<subseteq> set (fst (analyzeProp x1 prefix acc))" using e by blast
    also have "\<dots> \<subseteq> set (fst (analyzeProps x2 prefix (analyzeProp x1 prefix acc)))"
      using rest by blast
    finally show "set (fst acc) \<subseteq> set (fst (analyzeProps (x1 # x2) prefix acc))" by simp
  qed
qed simp_all

lemma analyzeObjectFields_mono:
  "set (fst acc) \<subseteq> set (fst (analyzeObjectFields v prefix acc))"
  using analyze_mono [of v "[]" "([], JNull)" "[]"] by blast

lemma analyzeItems_mono:
  "set (fst acc) \<subseteq> set (fst (analyzeItems xs i prefix acc))"
  using analyze_mono [of JNull xs "([], JNull)" "[]"] by blast

lemma analyzeProp_mono:
  "set (fst acc) \<subseteq> set (fst (analyzeProp entry prefix acc))"
  using analyze_mono [of JNull "[]" entry "[]"] by blast

lemma analyzeProps_mono:
  "set (fst acc) \<subseteq> set (fst (analyzeProps kvs prefix acc))"
  using analyze_mono [of JNull "[]" "([], JNull)" kvs] by blast

lemma analyzeProp_key:
  "fieldNameOf prefix (fst entry) \<in> set (fst (analyzeProp entry prefix acc))"
proof (cases entry)
  case (Pair k v)
  let ?name = "fieldNameOf prefix k"
  have "?name \<in> set (fst (recordField ?name v acc))"
    by (simp add: recordField_fields)
  moreover have "set (fst (recordField ?name v acc))
                   \<subseteq> set (fst (analyzeObjectFields v ?name (recordField ?name v acc)))"
    by (rule analyzeObjectFields_mono)
  ultimately show ?thesis using Pair by auto
qed

lemma analyzeProps_keys:
  "fieldNameOf prefix ` fst ` set kvs \<subseteq> set (fst (analyzeProps kvs prefix acc))"
proof (induction kvs arbitrary: acc)
  case Nil
  then show ?case by simp
next
  case (Cons e kvs)
  have "fieldNameOf prefix (fst e) \<in> set (fst (analyzeProp e prefix acc))"
    by (rule analyzeProp_key)
  moreover have "set (fst (analyzeProp e prefix acc))
                   \<subseteq> set (fst (analyzeProps kvs prefix (analyzeProp e prefix acc)))"
    by (rule analyzeProps_mono)
  ultimately show ?case using Cons.IH [of "analyzeProp e prefix acc"] by auto
qed

lemma analyzeItems_keys:
  "(\<lambda>j. fieldNameOf prefix (showNat j)) ` {i..<i + length xs}
     \<subseteq> set (fst (analyzeItems xs i prefix acc))"
proof (induction xs arbitrary: i acc)
  case Nil
  then show ?case by simp
next
  case (Cons v xs)
  let ?name = "fieldNameOf prefix (showNat i)"
  let ?next = "if isObject v \<and> splitLength prefix < 3
               then analyzeObjectFields v ?name (recordField ?name v acc)
               else recordField ?name v acc"
  have "?name \<in> set (fst (recordField ?name v acc))" by (simp add: recordField_fields)
  moreover have "set (fst (recordField ?name v acc))
                   \<subseteq> set (fst (analyzeObjectFields v ?name (recordField ?name v acc)))"
    by (rule analyzeObjectFields_mono)
  ultimately have "?name \<in> set (fst ?next)" by auto
  moreover have "set (fst ?next) \<subseteq> set (fst (analyzeItems xs (Suc i) prefix ?next))"
    by (rule analyzeItems_mono)
  ultimately have here: "?name \<in> set (fst (analyzeItems xs (Suc i) prefix ?next))" by blast
  have "{i..<i + length (v # xs)} = insert i {Suc i..<Suc i + length xs}" by auto
  then show ?case using here Cons.IH [of "Suc i" ?next] by auto
qed

lemma analyze_top_level_keys:
  "set (objectKeys v) \<subseteq> set (fst (analyzeObjectFields v [] acc))"
proof (cases v)
  case (JArr xs)
  have "set (objectKeys v) = showNat ` {0..<0 + length xs}"
    using JArr by (simp add: objectKeys_def objectEntries_def)
  then show ?thesis
    using analyzeItems_keys [of "[]" 0 xs acc] JArr by (simp add: fieldNameOf_def)
next
  case (JObj kvs)
  then show ?thesis
    using analyzeProps_keys [of "[]" kvs acc]
    by (auto simp: objectKeys_def objectEntries_def fieldNameOf_def)
qed (simp_all add: objectKeys_def objectEntries_def)

lemma collectMessage_skip:
  "analysedValue m = None \<Longrightarrow> collectMessage pm m = pm"
  by (auto simp: analysedValue_def collectMessage_def split: option.splits if_splits)

lemma collectMessage_add:
  assumes "analysedValue m = Some v"
  shows "collectMessage pm m =
     AList.update (getMessageSignature v)
       ((case map_of pm (getMessageSignature v) of
           None \<Rightarrow> \<lparr> pd_signature = getMessageSignature v, pd_examples = [],
                      pd_fields = [], pd_fieldTypes = [] \<rparr>
         | Some p \<Rightarrow> p)
        \<lparr> pd_examples :=
            pd_examples (case map_of pm (getMessageSignature v) of
                           None \<Rightarrow> \<lparr> pd_signature = getMessageSignature v, pd_examples = [],
                                      pd_fields = [], pd_fieldTypes = [] \<rparr>
                         | Some p \<Rightarrow> p) @ [v],
          pd_fields :=
            fst (analyzeObjectFields v []
                   (pd_fields (case map_of pm (getMessageSignature v) of
                                 None \<Rightarrow> \<lparr> pd_signature = getMessageSignature v,
                                            pd_examples = [], pd_fields = [],
                                            pd_fieldTypes = [] \<rparr>
                               | Some p \<Rightarrow> p),
                    pd_fieldTypes (case map_of pm (getMessageSignature v) of
                                     None \<Rightarrow> \<lparr> pd_signature = getMessageSignature v,
                                                pd_examples = [], pd_fields = [],
                                                pd_fieldTypes = [] \<rparr>
                                   | Some p \<Rightarrow> p))),
          pd_fieldTypes :=
            snd (analyzeObjectFields v []
                   (pd_fields (case map_of pm (getMessageSignature v) of
                                 None \<Rightarrow> \<lparr> pd_signature = getMessageSignature v,
                                            pd_examples = [], pd_fields = [],
                                            pd_fieldTypes = [] \<rparr>
                               | Some p \<Rightarrow> p),
                    pd_fieldTypes (case map_of pm (getMessageSignature v) of
                                     None \<Rightarrow> \<lparr> pd_signature = getMessageSignature v,
                                                pd_examples = [], pd_fields = [],
                                                pd_fieldTypes = [] \<rparr>
                                   | Some p \<Rightarrow> p))) \<rparr>)
       pm"
proof -
  from assms have "wm_parsed m = Some v" and "\<not> (\<not> truthy v \<or> typeof v \<noteq> ''object'')"
    by (auto simp: analysedValue_def split: option.splits if_splits)
  then show ?thesis by (simp add: collectMessage_def Let_def)
qed

lemma collectMessage_invariant:
  assumes "groupsCollected pm vs"
  shows "groupsCollected (collectMessage pm m)
           (vs @ (case analysedValue m of None \<Rightarrow> [] | Some v \<Rightarrow> [v]))"
proof (cases "analysedValue m")
  case None
  then show ?thesis using assms by (simp add: collectMessage_skip)
next
  case (Some v)
  let ?s = "getMessageSignature v"
  let ?old = "case map_of pm ?s of
                None \<Rightarrow> \<lparr> pd_signature = ?s, pd_examples = [], pd_fields = [],
                           pd_fieldTypes = [] \<rparr>
              | Some p \<Rightarrow> p"
  let ?an = "analyzeObjectFields v [] (pd_fields ?old, pd_fieldTypes ?old)"
  let ?new = "?old\<lparr> pd_examples := pd_examples ?old @ [v], pd_fields := fst ?an,
                     pd_fieldTypes := snd ?an \<rparr>"
  have step: "collectMessage pm m = AList.update ?s ?new pm"
    using collectMessage_add [OF Some] by simp
  from assms have d: "distinct (map fst pm)"
    and inv: "\<And>s. case map_of pm s of
                None \<Rightarrow> signatureGroup s vs = []
              | Some pd \<Rightarrow>
                  pd_examples pd = signatureGroup s vs \<and> pd_examples pd \<noteq> [] \<and>
                  list_all (\<lambda>u. set (objectKeys u) \<subseteq> set (pd_fields pd)) (pd_examples pd)"
    by (auto simp: groupsCollected_def)
  have old_ex: "pd_examples ?old = signatureGroup ?s vs"
    using inv [of ?s] by (auto split: option.splits)
  have old_keys: "list_all (\<lambda>u. set (objectKeys u) \<subseteq> set (pd_fields ?old)) (pd_examples ?old)"
    using inv [of ?s] by (auto split: option.splits)
  have grow: "set (pd_fields ?old) \<subseteq> set (fst ?an)"
    using analyzeObjectFields_mono [of "(pd_fields ?old, pd_fieldTypes ?old)" v "[]"] by simp
  have top: "set (objectKeys v) \<subseteq> set (fst ?an)"
    by (rule analyze_top_level_keys)
  have new_keys: "list_all (\<lambda>u. set (objectKeys u) \<subseteq> set (fst ?an)) (pd_examples ?old @ [v])"
    using old_keys grow top by (auto simp: list_all_iff)
  have d': "distinct (map fst (AList.update ?s ?new pm))"
    using d by (rule distinct_update)
  have inv': "case map_of (AList.update ?s ?new pm) s of
          None \<Rightarrow> signatureGroup s (vs @ [v]) = []
        | Some pd \<Rightarrow>
            pd_examples pd = signatureGroup s (vs @ [v]) \<and> pd_examples pd \<noteq> [] \<and>
            list_all (\<lambda>u. set (objectKeys u) \<subseteq> set (pd_fields pd)) (pd_examples pd)" for s
  proof (cases "s = ?s")
    case True
    then show ?thesis
      using old_ex new_keys by (simp add: update_conv' signatureGroup_def)
  next
    case False
    then have "signatureGroup s (vs @ [v]) = signatureGroup s vs"
      by (auto simp: signatureGroup_def)
    then show ?thesis using False inv [of s]
      by (auto simp: update_conv' split: option.splits)
  qed
  have vs': "vs @ (case analysedValue m of None \<Rightarrow> [] | Some v \<Rightarrow> [v]) = vs @ [v]"
    using Some by simp
  show ?thesis unfolding step vs' groupsCollected_def using d' inv' by blast
qed

lemma foldl_collectMessage_invariant:
  "groupsCollected pm vs \<Longrightarrow>
     groupsCollected (foldl collectMessage pm ms) (vs @ analysedValues ms)"
proof (induction ms arbitrary: pm vs)
  case Nil
  then show ?case by (simp add: analysedValues_def)
next
  case (Cons m ms)
  have "analysedValues (m # ms)
          = (case analysedValue m of None \<Rightarrow> [] | Some v \<Rightarrow> [v]) @ analysedValues ms"
    by (simp add: analysedValues_def map_filter_simps split: option.splits)
  moreover from Cons.prems
  have "groupsCollected (collectMessage pm m)
          (vs @ (case analysedValue m of None \<Rightarrow> [] | Some v \<Rightarrow> [v]))"
    by (rule collectMessage_invariant)
  ultimately show ?case using Cons.IH by fastforce
qed

lemma emitPatterns_entries:
  "list_all2
     (\<lambda>p e. wp_template p = (case pd_examples (snd e) of [] \<Rightarrow> None | ex # exs \<Rightarrow> Some ex)
           \<and> wp_frequency p = length (pd_examples (snd e))
           \<and> wp_requiredFields p
               = filter (appearsInAll chain (pd_examples (snd e))) (pd_fields (snd e))
           \<and> wp_optionalFields p
               = filter (\<lambda>f. \<not> appearsInAll chain (pd_examples (snd e)) f) (pd_fields (snd e)))
     (emitPatterns chain pm k)
     (filter (\<lambda>e. \<not> length (pd_examples (snd e)) < 2) pm)"
  by (induction pm arbitrary: k) (simp_all add: buildPattern_def Let_def)

lemma list_all2_filter_length:
  "list_all2 R xs ys \<Longrightarrow> (\<And>x y. R x y \<Longrightarrow> y \<in> set ys \<Longrightarrow> P x = Q y) \<Longrightarrow>
     length (filter P xs) = length (filter Q ys)"
  by (induction rule: list_all2_induct) auto

lemma list_all2_partner:
  "list_all2 R xs ys \<Longrightarrow> x \<in> set xs \<Longrightarrow> \<exists>y \<in> set ys. R x y"
  by (induction rule: list_all2_induct) auto

lemma distinct_key_count:
  "distinct (map fst pm) \<Longrightarrow>
     length (filter (\<lambda>e. fst e = s) (filter Q pm))
       = (case map_of pm s of None \<Rightarrow> 0 | Some pd \<Rightarrow> if Q (s, pd) then 1 else 0)"
proof (induction pm)
  case Nil
  then show ?case by simp
next
  case (Cons e pm)
  obtain k pd where e: "e = (k, pd)" by (cases e)
  show ?case
  proof (cases "k = s")
    case True
    with Cons.prems e have "s \<notin> fst ` set pm" by auto
    then have "filter (\<lambda>e. fst e = s) (filter Q pm) = []"
      by (auto simp: filter_empty_conv)
    then show ?thesis using True e by simp
  next
    case False
    then show ?thesis using Cons e by simp
  qed
qed

text \<open>
  What \<^verbatim>\<open>analyzeMessagePatterns\<close> does with the messages that carry a \<^verbatim>\<open>parsed\<close> object:
  there is exactly one pattern for each signature whose group has two or more examples
  and none for the others; the pattern's frequency is the size of the group; a required
  field is a property of every example; a top-level key of every example is required,
  and a top-level key of some examples that is not a property of all of them is optional.
\<close>

lemma pattern_inference_groups:
  "length (filter (\<lambda>p. map_option getMessageSignature (wp_template p) = Some s)
             (analyzeMessagePatterns chain ms))
     = (if 2 \<le> length (signatureGroup s (analysedValues ms)) then 1 else 0)"
  and "p \<in> set (analyzeMessagePatterns chain ms) \<Longrightarrow>
       map_option getMessageSignature (wp_template p) = Some s \<Longrightarrow>
         wp_frequency p = length (signatureGroup s (analysedValues ms))
         \<and> (\<forall>f \<in> set (wp_requiredFields p).
               \<forall>v \<in> set (signatureGroup s (analysedValues ms)). hasProperty chain v f)
         \<and> (\<forall>k. (\<forall>v \<in> set (signatureGroup s (analysedValues ms)). k \<in> set (objectKeys v))
               \<longrightarrow> k \<in> set (wp_requiredFields p))
         \<and> (\<forall>k. (\<exists>v \<in> set (signatureGroup s (analysedValues ms)). k \<in> set (objectKeys v))
                 \<and> (\<exists>v \<in> set (signatureGroup s (analysedValues ms)). \<not> hasProperty chain v k)
               \<longrightarrow> k \<in> set (wp_optionalFields p))
         \<and> set (wp_requiredFields p) \<inter> set (wp_optionalFields p) = {}"
proof -
  let ?pm = "foldl collectMessage [] ms"
  let ?vs = "analysedValues ms"
  let ?E = "filter (\<lambda>e. \<not> length (pd_examples (snd e)) < 2) ?pm"
  let ?R = "\<lambda>p e. wp_template p = (case pd_examples (snd e) of [] \<Rightarrow> None | ex # exs \<Rightarrow> Some ex)
           \<and> wp_frequency p = length (pd_examples (snd e))
           \<and> wp_requiredFields p
               = filter (appearsInAll chain (pd_examples (snd e))) (pd_fields (snd e))
           \<and> wp_optionalFields p
               = filter (\<lambda>f. \<not> appearsInAll chain (pd_examples (snd e)) f) (pd_fields (snd e))"
  have "groupsCollected [] []" by (simp add: groupsCollected_def signatureGroup_def)
  from foldl_collectMessage_invariant [OF this, of ms]
  have G: "groupsCollected ?pm ?vs" by simp
  then have d: "distinct (map fst ?pm)" by (simp add: groupsCollected_def)
  have entry: "pd_examples pd = signatureGroup k ?vs \<and> pd_examples pd \<noteq> [] \<and>
               list_all (\<lambda>v. set (objectKeys v) \<subseteq> set (pd_fields pd)) (pd_examples pd)"
    if "(k, pd) \<in> set ?pm" for k pd
  proof -
    from that d have "map_of ?pm k = Some pd" by simp
    with G show ?thesis by (auto simp: groupsCollected_def split: option.splits dest: spec [of _ k])
  qed
  have all: "list_all2 ?R (analyzeMessagePatterns chain ms) ?E"
    unfolding analyzeMessagePatterns_def by (rule emitPatterns_entries)
  have sig: "(map_option getMessageSignature (wp_template q) = Some s) = (fst e = s)"
    if "?R q e" and "e \<in> set ?E" for q e
  proof -
    obtain k pd where e: "e = (k, pd)" by (cases e)
    with that(2) have "(k, pd) \<in> set ?pm" by simp
    from entry [OF this] have grp: "pd_examples pd = signatureGroup k ?vs"
      and ne: "pd_examples pd \<noteq> []" by auto
    from ne obtain ex exs where ex: "pd_examples pd = ex # exs"
      by (cases "pd_examples pd") auto
    with grp have "ex \<in> set (signatureGroup k ?vs)" by (metis list.set_intros(1))
    then have "getMessageSignature ex = k" by (simp add: signatureGroup_def)
    then show ?thesis using that(1) e ex by auto
  qed
  have "length (filter (\<lambda>p. map_option getMessageSignature (wp_template p) = Some s)
             (analyzeMessagePatterns chain ms))
          = length (filter (\<lambda>e. fst e = s) ?E)"
    using all sig by (rule list_all2_filter_length)
  also have "\<dots> = (case map_of ?pm s of None \<Rightarrow> 0
                    | Some pd \<Rightarrow> if \<not> length (pd_examples (snd (s, pd))) < 2 then 1 else 0)"
    using d by (rule distinct_key_count)
  also have "\<dots> = (if 2 \<le> length (signatureGroup s ?vs) then 1 else 0)"
  proof (cases "map_of ?pm s")
    case None
    with G have "signatureGroup s ?vs = []"
      by (auto simp: groupsCollected_def split: option.splits dest: spec [of _ s])
    then show ?thesis using None by simp
  next
    case (Some pd)
    then have "(s, pd) \<in> set ?pm" by (rule map_of_SomeD)
    from entry [OF this] show ?thesis using Some by auto
  qed
  finally show "length (filter (\<lambda>p. map_option getMessageSignature (wp_template p) = Some s)
             (analyzeMessagePatterns chain ms))
     = (if 2 \<le> length (signatureGroup s (analysedValues ms)) then 1 else 0)" .
  show "wp_frequency p = length (signatureGroup s ?vs)
         \<and> (\<forall>f \<in> set (wp_requiredFields p). \<forall>v \<in> set (signatureGroup s ?vs). hasProperty chain v f)
         \<and> (\<forall>k. (\<forall>v \<in> set (signatureGroup s ?vs). k \<in> set (objectKeys v))
               \<longrightarrow> k \<in> set (wp_requiredFields p))
         \<and> (\<forall>k. (\<exists>v \<in> set (signatureGroup s ?vs). k \<in> set (objectKeys v))
                 \<and> (\<exists>v \<in> set (signatureGroup s ?vs). \<not> hasProperty chain v k)
               \<longrightarrow> k \<in> set (wp_optionalFields p))
         \<and> set (wp_requiredFields p) \<inter> set (wp_optionalFields p) = {}"
    if mem: "p \<in> set (analyzeMessagePatterns chain ms)"
      and tmpl: "map_option getMessageSignature (wp_template p) = Some s"
  proof -
    from list_all2_partner [OF all mem] obtain e where e: "e \<in> set ?E" and R: "?R p e" by blast
    from sig [OF R e] tmpl have k: "fst e = s" by simp
    obtain pd where epd: "e = (s, pd)" using k by (cases e) auto
    with e have "(s, pd) \<in> set ?pm" by simp
    from entry [OF this] have grp: "pd_examples pd = signatureGroup s ?vs"
      and ne: "pd_examples pd \<noteq> []"
      and keys: "list_all (\<lambda>v. set (objectKeys v) \<subseteq> set (pd_fields pd)) (pd_examples pd)"
      by auto
    from R epd have freq: "wp_frequency p = length (pd_examples pd)"
      and req: "wp_requiredFields p = filter (appearsInAll chain (pd_examples pd)) (pd_fields pd)"
      and opt: "wp_optionalFields p
                  = filter (\<lambda>f. \<not> appearsInAll chain (pd_examples pd) f) (pd_fields pd)"
      by auto
    have own: "hasProperty chain v k" if "k \<in> set (objectKeys v)" for v k
      using that by (cases v) (auto simp: hasProperty_def objectKeys_def objectEntries_def)
    have c1: "wp_frequency p = length (signatureGroup s ?vs)" using freq grp by simp
    have c2: "\<forall>f \<in> set (wp_requiredFields p). \<forall>v \<in> set (signatureGroup s ?vs). hasProperty chain v f"
      unfolding req grp by (auto simp: appearsInAll_def list_all_iff)
    have c3: "\<forall>k. (\<forall>v \<in> set (signatureGroup s ?vs). k \<in> set (objectKeys v))
               \<longrightarrow> k \<in> set (wp_requiredFields p)"
    proof (intro allI impI)
      fix k assume a: "\<forall>v \<in> set (signatureGroup s ?vs). k \<in> set (objectKeys v)"
      from ne obtain ex where "ex \<in> set (pd_examples pd)" by (cases "pd_examples pd") auto
      then have "k \<in> set (pd_fields pd)"
        using keys a grp by (auto simp: list_all_iff)
      moreover have "appearsInAll chain (pd_examples pd) k"
        using a own grp by (auto simp: appearsInAll_def list_all_iff)
      ultimately show "k \<in> set (wp_requiredFields p)" unfolding req by simp
    qed
    have c4: "\<forall>k. (\<exists>v \<in> set (signatureGroup s ?vs). k \<in> set (objectKeys v))
                 \<and> (\<exists>v \<in> set (signatureGroup s ?vs). \<not> hasProperty chain v k)
               \<longrightarrow> k \<in> set (wp_optionalFields p)"
    proof (intro allI impI)
      fix k assume a: "(\<exists>v \<in> set (signatureGroup s ?vs). k \<in> set (objectKeys v))
                 \<and> (\<exists>v \<in> set (signatureGroup s ?vs). \<not> hasProperty chain v k)"
      then have "k \<in> set (pd_fields pd)"
        using keys grp by (auto simp: list_all_iff)
      moreover have "\<not> appearsInAll chain (pd_examples pd) k"
        using a grp by (auto simp: appearsInAll_def list_all_iff)
      ultimately show "k \<in> set (wp_optionalFields p)" unfolding opt by simp
    qed
    have c5: "set (wp_requiredFields p) \<inter> set (wp_optionalFields p) = {}"
      unfolding req opt by auto
    from c1 c2 c3 c4 c5 show ?thesis by blast
  qed
qed

lemma captureMessage_buffer:
  "wm_parsed (captureMessage jsonParse (BinaryData bytes) isBinary direction now) = None"
  by (simp add: captureMessage_def)

lemma onMessage_buffers:
  "list_all (\<lambda>m. wm_parsed m = None) messages \<Longrightarrow>
     list_all (\<lambda>m. wm_parsed m = None)
       (onMessage jsonParse maxMessages messages
          (map (\<lambda>(bytes, isBinary, now). (BinaryData bytes, isBinary, now)) frames))"
  by (induction frames arbitrary: messages) (auto simp: captureMessage_buffer)

lemma collect_unparsed:
  "list_all (\<lambda>m. wm_parsed m = None) messages \<Longrightarrow> foldl collectMessage pm messages = pm"
  by (induction messages arbitrary: pm) (simp_all add: collectMessage_def)

text \<open>
  C2 at its failing input: the server sends the text frame \<^verbatim>\<open>{"id":7,"status":"ok"}\<close>
  three times and \<^verbatim>\<open>{"error":"x"}\<close> once. The \<^verbatim>\<open>ws\<close> socket hands every frame to the
  \<^verbatim>\<open>message\<close> handler as a Buffer (with \<^verbatim>\<open>isBinary\<close> false for a text frame), and
  \<^verbatim>\<open>captureMessage\<close> calls \<^verbatim>\<open>JSON.parse\<close> only when \<^verbatim>\<open>typeof data === 'string'\<close>. So no
  captured message has a \<^verbatim>\<open>parsed\<close> member, whatever the frames are, and pattern
  inference yields no pattern: the three messages with the same keys are not grouped.
\<close>

theorem c2_buffer_frames_yield_no_pattern:
  "list_all (\<lambda>m. wm_parsed m = None \<and> wm_type m \<noteq> JSON)
     (sessionMessages jsonParse configured
        (map (\<lambda>(bytes, isBinary, now). (BinaryData bytes, isBinary, now)) frames))
   \<and> analyzeMessagePatterns chain
       (sessionMessages jsonParse configured
          (map (\<lambda>(bytes, isBinary, now). (BinaryData bytes, isBinary, now)) frames)) = []
   \<and> length (sessionMessages jsonParse None [statusFrame, statusFrame, errorFrame, statusFrame]) = 4
   \<and> analyzeMessagePatterns chain
       (sessionMessages jsonParse None [statusFrame, statusFrame, errorFrame, statusFrame]) = []"
proof -
  let ?buffers = "map (\<lambda>(bytes, isBinary, now). (BinaryData bytes, isBinary, now)) frames"
  have typed: "list_all (\<lambda>m. wm_parsed m = None \<and> wm_type m \<noteq> JSON) messages \<Longrightarrow>
     list_all (\<lambda>m. wm_parsed m = None \<and> wm_type m \<noteq> JSON)
       (onMessage jsonParse maxMessages messages
          (map (\<lambda>(bytes, isBinary, now). (BinaryData bytes, isBinary, now)) fs))"
    for messages maxMessages fs
    by (induction fs arbitrary: messages) (auto simp: captureMessage_def)
  from typed [of "[]"]
  have a: "list_all (\<lambda>m. wm_parsed m = None \<and> wm_type m \<noteq> JSON)
             (sessionMessages jsonParse configured ?buffers)"
    by (simp add: sessionMessages_def)
  from onMessage_buffers [of "[]"]
  have "list_all (\<lambda>m. wm_parsed m = None) (sessionMessages jsonParse configured ?buffers)"
    by (simp add: sessionMessages_def)
  then have b: "analyzeMessagePatterns chain (sessionMessages jsonParse configured ?buffers) = []"
    by (simp add: analyzeMessagePatterns_def collect_unparsed)
  have c: "length (sessionMessages jsonParse None
                     [statusFrame, statusFrame, errorFrame, statusFrame]) = 4"
    by (simp add: sessionMessages_def maxMessagesOf_def truthyNum_def statusFrame_def
          errorFrame_def)
  have "list_all (\<lambda>m. wm_parsed m = None)
          (sessionMessages jsonParse None [statusFrame, statusFrame, errorFrame, statusFrame])"
    by (simp add: sessionMessages_def maxMessagesOf_def truthyNum_def statusFrame_def
          errorFrame_def captureMessage_buffer)
  then have d: "analyzeMessagePatterns chain
       (sessionMessages jsonParse None [statusFrame, statusFrame, errorFrame, statusFrame]) = []"
    by (simp add: analyzeMessagePatterns_def collect_unparsed)
  from a b c d show ?thesis by simp
qed

subsection \<open>WebSocket: the connection operation\<close>

lemma foldl_snoc_map:
  "foldl (\<lambda>operations event. operations @ [f event]) acc events = acc @ map f events"
  by (induction events arbitrary: acc) simp_all

text \<open>
  C10: the operations of a converted session are the synthetic \<^verbatim>\<open>Connect\<close> operation,
  built from the session's endpoint alone, followed by one operation per detected event;
  so there is exactly one more operation than there are events, and the first one has id
  \<^verbatim>\<open>websocket_connect\<close>, type \<^verbatim>\<open>endpoint\<close>, no parameters and the responses 101, 400
  and 401.
\<close>

theorem c10_connect_operation_first:
  "cs_operations (convertSession chain session patterns)
     = createConnectionOperation (ws_endpoint session)
       # map (\<lambda>event. convertEventToOperation chain event patterns) (ws_events session)
   \<and> length (cs_operations (convertSession chain session patterns)) = Suc (length (ws_events session))
   \<and> op_id (hd (cs_operations (convertSession chain session patterns))) = ''websocket_connect''
   \<and> op_name (hd (cs_operations (convertSession chain session patterns))) = ''Connect''
   \<and> op_type (hd (cs_operations (convertSession chain session patterns))) = OpEndpoint
   \<and> op_parameters (hd (cs_operations (convertSession chain session patterns))) = []
   \<and> map r_statusCode (op_responses (hd (cs_operations (convertSession chain session patterns))))
       = [''101'', ''400'', ''401'']
   \<and> (ws_endpoint session = ws_endpoint session' \<longrightarrow>
        hd (cs_operations (convertSession chain session patterns))
          = hd (cs_operations (convertSession chain' session' patterns')))"
  by (simp add: convertSession_def foldl_snoc_map createConnectionOperation_def)

theorem c10_connect_operation_first_witness:
  "map op_id (cs_operations
      (convertSession exampleChain exampleSession
         (analyzeMessagePatterns exampleChain (ws_messages exampleSession))))
     = [''websocket_connect'', ''websocket_message'', ''websocket_ping'']
   \<and> length (ws_events exampleSession) = 2
   \<and> ws_endpoint exampleSession = ws_endpoint (exampleSession\<lparr> ws_events := [] \<rparr>)
   \<and> hd (cs_operations (convertSession exampleChain exampleSession []))
       = hd (cs_operations (convertSession exampleChain (exampleSession\<lparr> ws_events := [] \<rparr>) []))"
proof -
  have e: "ws_endpoint exampleSession = ws_endpoint (exampleSession\<lparr> ws_events := [] \<rparr>)"
    by simp
  have n: "length (ws_events exampleSession) = 2"
    by (simp add: exampleSession_def)
  have ids: "map (\<lambda>event. op_id (convertEventToOperation exampleChain event ps)) (ws_events exampleSession)
               = [''websocket_message'', ''websocket_ping'']" for ps
    by (simp add: exampleSession_def convertEventToOperation_def Let_def)
  note t = c10_connect_operation_first
    [of exampleChain exampleSession _ "exampleSession\<lparr> ws_events := [] \<rparr>" exampleChain "[]"]
  from t [of "analyzeMessagePatterns exampleChain (ws_messages exampleSession)"]
  have "map op_id (cs_operations
      (convertSession exampleChain exampleSession
         (analyzeMessagePatterns exampleChain (ws_messages exampleSession))))
     = [''websocket_connect'', ''websocket_message'', ''websocket_ping'']"
    using ids by (simp add: createConnectionOperation_def comp_def)
  moreover from t [of "[]"] e
  have "hd (cs_operations (convertSession exampleChain exampleSession []))
       = hd (cs_operations (convertSession exampleChain (exampleSession\<lparr> ws_events := [] \<rparr>) []))"
    by blast
  ultimately show ?thesis using e n by simp
qed

subsection \<open>REST: discovery path exhaustion\<close>

lemma probePaths_exhausted:
  "(\<And>k path. path \<in> set paths \<Longrightarrow> \<not> probeAccepts (http k HEAD (baseUrl @ path))) \<Longrightarrow>
     probePaths http baseUrl paths n = (None, n + length paths)"
  by (induction paths arbitrary: n) simp_all

text \<open>
  C9, as stated, at \<^verbatim>\<open>http://api.example.com\<close> with every request answered 404: the
  result is \<^verbatim>\<open>success:false\<close> and \<^verbatim>\<open>metadata.triedPaths\<close> lists the 12 paths, but the
  error text is the fixed sentence below, which mentions no count (it contains no digit).
\<close>

theorem c9_error_mentions_no_count_counterexample:
  "introspect deadHttp parseNothing parseNothing unitConverter
       (defaultConfig ''http://api.example.com'') 0
     = Inr \<lparr> ir_success = False, ir_schema = None,
             ir_error = Some ''Connection test failed: Could not discover OpenAPI specification URL'',
             ir_warnings = None,
             ir_metadata = Some ((metadataFor ''http://api.example.com'')
                \<lparr> md_triedPaths := Some COMMON_OPENAPI_PATHS \<rparr>) \<rparr>
   \<and> \<not> includesStr ''Connection test failed: Could not discover OpenAPI specification URL''
         (showNat 12)
   \<and> filter isDigit ''Connection test failed: Could not discover OpenAPI specification URL'' = []"
  by code_simp

text \<open>
  C9, amended: for a base URL that does not itself look like a specification URL, under
  the default configuration, when the probe accepts none of the 12 common paths, REST
  \<^verbatim>\<open>introspect\<close> returns \<^verbatim>\<open>success:false\<close> with the error
  \<^verbatim>\<open>Connection test failed: Could not discover OpenAPI specification URL\<close> (the paths are
  not counted in the text) and \<^verbatim>\<open>metadata.triedPaths\<close> is the list of the 12 paths.
\<close>

theorem c9_discovery_exhausted:
  assumes "\<not> looksLikeSpecUrl url"
    and "\<forall>k. \<forall>path \<in> set COMMON_OPENAPI_PATHS.
           \<not> probeAccepts (http k HEAD (removeTrailingSlash url @ path))"
  shows "introspect http jsonParse yamlParse convertSchema (defaultConfig url) n
           = Inr \<lparr> ir_success = False, ir_schema = None,
                   ir_error = Some ''Connection test failed: Could not discover OpenAPI specification URL'',
                   ir_warnings = None,
                   ir_metadata = Some ((metadataFor url)
                      \<lparr> md_triedPaths := Some COMMON_OPENAPI_PATHS \<rparr>) \<rparr>
         \<and> length COMMON_OPENAPI_PATHS = 12"
proof -
  have paths: "getPathsToTry (defaultConfig url) = COMMON_OPENAPI_PATHS"
    by (simp add: getPathsToTry_def defaultConfig_def)
  have "probePaths http (removeTrailingSlash url) COMMON_OPENAPI_PATHS n
          = (None, n + length COMMON_OPENAPI_PATHS)"
    using assms(2) by (intro probePaths_exhausted) blast
  then have d: "discoverSpecificationUrl http (defaultConfig url) n
                  = (None, n + length COMMON_OPENAPI_PATHS)"
    using assms(1) paths
    by (simp add: discoverSpecificationUrl_def truthyStr_def defaultConfig_def)
  have t: "testConnection http (defaultConfig url) n
             = (Inr \<lparr> ct_success = False,
                      ct_error = Some ''Could not discover OpenAPI specification URL'',
                      ct_metadata = (metadataFor url)
                        \<lparr> md_triedPaths := Some COMMON_OPENAPI_PATHS \<rparr> \<rparr>,
                n + length COMMON_OPENAPI_PATHS)"
    unfolding testConnection_def d using paths by (simp add: truthyStr_def defaultConfig_def)
  have "introspectBody http jsonParse yamlParse convertSchema (defaultConfig url) n
           = Inr \<lparr> ir_success = False, ir_schema = None,
                   ir_error = Some ''Connection test failed: Could not discover OpenAPI specification URL'',
                   ir_warnings = None,
                   ir_metadata = Some ((metadataFor url)
                      \<lparr> md_triedPaths := Some COMMON_OPENAPI_PATHS \<rparr>) \<rparr>"
    unfolding introspectBody_def t by simp
  then show ?thesis
    by (simp add: introspect_def COMMON_OPENAPI_PATHS_def)
qed

theorem c9_discovery_exhausted_witness:
  "\<not> looksLikeSpecUrl ''http://api.example.com/''
   \<and> \<not> probeAccepts (deadHttp 3 HEAD (removeTrailingSlash ''http://api.example.com/'' @ ''/api-docs''))
   \<and> map_sum id ir_success
        (introspect deadHttp parseNothing parseNothing unitConverter
           (defaultConfig ''http://api.example.com/'') 0) = Inr False
   \<and> length COMMON_OPENAPI_PATHS = 12"
proof -
  have h1: "\<not> looksLikeSpecUrl ''http://api.example.com/''"
    by code_simp
  have h2: "\<forall>k. \<forall>path \<in> set COMMON_OPENAPI_PATHS.
           \<not> probeAccepts (deadHttp k HEAD (removeTrailingSlash ''http://api.example.com/'' @ path))"
    by (simp add: probeAccepts_def deadHttp_def)
  note t = c9_discovery_exhausted
    [where url = "''http://api.example.com/''" and http = deadHttp and jsonParse = parseNothing
       and yamlParse = parseNothing and convertSchema = unitConverter and n = 0]
  from t [OF h1 h2] show ?thesis using h1 by (simp add: probeAccepts_def deadHttp_def)
qed

subsection \<open>REST: validation of the parsed document\<close>

















subsection \<open>Connectors: which failures are results and which are thrown\<close>





end
